theory Spec2Isabelle
  imports Main "HOL-Library.Signed_Division" "HOL-Library.AList" "HOL-Library.Char_ord"
    "HOL-Library.List_Lexorder"
begin

section \<open>Errors\<close>

text \<open>
  A Go \<open>error\<close> is an interface value. The sentinels are the package-level variables of
  package \<open>errors\<close> that \<open>server.go\<close> names, and \<open>ErrTemporarilyUnavailable\<close>, which its
  tables hold as well; \<open>EscapeError\<close> is the error of
  \<open>url.QueryUnescape\<close>; \<open>ErrOpaque n msg\<close> is any other root error
  (\<open>n\<close> its identity, \<open>msg\<close> its text) and \<open>ErrUnhashable n msg\<close> one whose dynamic type
  is not comparable (a struct that holds a slice, say): it can be compared with an error of
  another type, and a map cannot be indexed with it; \<open>WithMessage\<close> and \<open>WithStack\<close> are the two
  wrappers of \<open>github.com/pkg/errors\<close>. A wrapper is a fresh pointer, so it is never equal
  to a sentinel: the datatype's constructors are distinct in the same way.
\<close>

datatype err =
    ErrInvalidRequest
  | ErrUnauthorizedClient
  | ErrAccessDenied
  | ErrUnsupportedResponseType
  | ErrInvalidScope
  | ErrServerError
  | ErrUnsupportedGrantType
  | ErrInvalidGrant
  | ErrInvalidClient
  | ErrInvalidAuthorizeCode
  | ErrInvalidRefreshToken
  | ErrExpiredRefreshToken
  | ErrInvalidAccessToken
  | ErrTemporarilyUnavailable
  | EscapeError string
  | ErrOpaque nat string
  | ErrUnhashable nat string
  | WithMessage err string
  | WithStack err

text \<open>\<open>perrors.Wrap(err, msg)\<close> and \<open>perrors.Wrapf\<close>, on a non-nil error (every call in
  \<open>server.go\<close> passes one): a message wrapper inside a stack wrapper.\<close>

definition Wrap :: "err \<Rightarrow> string \<Rightarrow> err" where
  "Wrap e msg = WithStack (WithMessage e msg)"

text \<open>\<open>perrors.Cause\<close>: unwrap until the error has no cause.\<close>

fun Cause :: "err \<Rightarrow> err" where
  "Cause (WithMessage e msg) = Cause e"
| "Cause (WithStack e) = Cause e"
| "Cause e = e"

section \<open>Data model\<close>

type_synonym GrantType = string
type_synonym ResponseType = string
type_synonym Duration = int

text \<open>
  The constants and the two \<open>String\<close> methods of the root package (\<open>const.go\<close>), which
  \<open>server.go\<close> uses by name only. They are a parameter of every function that reads them.
\<close>

record oauth2_consts =
  Code :: ResponseType
  Token :: ResponseType
  AuthorizationCode :: GrantType
  PasswordCredentials :: GrantType
  ClientCredentials :: GrantType
  Refreshing :: GrantType
  Implicit :: GrantType
  ResponseType_String :: "ResponseType \<Rightarrow> string"
  GrantType_String :: "GrantType \<Rightarrow> string"

text \<open>Modelled from the spec: \<open>Config\<close> is declared in \<open>config.go\<close>, outside the sources
  at hand. Its four fields are those of the spec's data model, which are the ones
  \<open>server.go\<close> reads.\<close>

record Config =
  TokenType :: string
  AllowedResponseTypes :: "ResponseType list"
  AllowedGrantTypes :: "GrantType list"
  AllowGetAccessRequest :: bool

text \<open>
  \<open>http.Request\<close>: the method, the parsed form and the header. \<open>FormValue\<close> and
  \<open>Header.Get\<close> return the first value stored under the key, or the empty string.
\<close>

record Request =
  Method :: string
  Form :: "(string \<times> string list) list"
  ReqHeader :: "(string \<times> string list) list"

definition first_value :: "(string \<times> string list) list \<Rightarrow> string \<Rightarrow> string" where
  "first_value vs k = (case map_of vs k of Some (v # _) \<Rightarrow> v | _ \<Rightarrow> [])"

definition FormValue :: "Request \<Rightarrow> string \<Rightarrow> string" where
  "FormValue r k = first_value (Form r) k"

definition Header_Get :: "Request \<Rightarrow> string \<Rightarrow> string" where
  "Header_Get r k = first_value (ReqHeader r) k"

text \<open>\<open>AuthorizeRequest\<close>, with the fields of the literal at lines 167 to 174 and the two
  that \<open>GetAuthorizeToken\<close> reads besides; \<open>TokenGenerateRequest\<close>, with the fields of the
  literals at lines 205 to 212 and 301 to 305 and those the grant cases assign.\<close>

record AuthorizeRequest =
  RedirectURI :: string
  ResponseType :: ResponseType
  ClientID :: string
  State :: string
  Scope :: string
  UserID :: string
  AccessTokenExp :: Duration
  Request :: Request

record TokenGenerateRequest =
  tgr_ClientID :: string
  tgr_ClientSecret :: string
  tgr_UserID :: string
  tgr_RedirectURI :: string
  tgr_Code :: string
  tgr_Refresh :: string
  tgr_Scope :: string
  tgr_AccessTokenExp :: Duration
  tgr_Request :: Request

text \<open>Modelled from the spec: \<open>oauth2.TokenInfo\<close> is an interface of the root package; the
  record holds what the five accessors that \<open>server.go\<close> calls return. A nil \<open>TokenInfo\<close>
  is \<open>None\<close> of \<open>TokenInfo option\<close>.\<close>

record TokenInfo =
  GetAccess :: string
  GetRefresh :: string
  GetScope :: string
  GetAccessExpiresIn :: Duration
  GetCode :: string

text \<open>The values stored in a \<open>map[string]interface{}\<close> of response data: the strings and
  integers that \<open>server.go\<close> stores there. (An extension field of another type is outside the
  model.)\<close>

datatype val = VString string | VInt int

type_synonym data = "(string \<times> val) list"

text \<open>\<open>errors.Response\<close>, with the six fields \<open>GetErrorData\<close> reads and writes, and
  what a handler can see of an \<open>http.ResponseWriter\<close>.\<close>

record Response =
  Error :: "err option"
  ErrorCode :: int
  Description :: string
  URI :: string
  StatusCode :: int
  Header :: "(string \<times> string list) list"

record ResponseWriter =
  wHeader :: "(string \<times> string) list"
  wStatus :: "int option"
  wBody :: "data option"

section \<open>Collaborators, state and calls\<close>

text \<open>
  The collaborators are functions of the embedding application and may have effects of
  their own: each takes the application's state \<open>'w\<close> and returns the new one. Every call
  the server makes to a collaborator or to the token manager is recorded, in order.
\<close>

datatype call =
    CallClientInfo
  | CallClientAuthorized
  | CallClientScope
  | CallUserAuthorization
  | CallPasswordAuthorization
  | CallRefreshingScope
  | CallResponseError
  | CallInternalError
  | CallExtensionFields
  | CallAccessTokenExp
  | CallAuthorizeScope
  | CallCheckUserPerm
  | CallGenerateAuthToken
  | CallGenerateAccessToken
  | CallRefreshAccessToken
  | CallLoadRefreshToken
  | CallLoadAccessToken
  | CallGetClient

record 'w state =
  world :: 'w
  calls :: "call list"

definition invoke :: "call \<Rightarrow> ('w \<Rightarrow> 'a \<times> 'w) \<Rightarrow> 'w state \<Rightarrow> 'a \<times> 'w state" where
  "invoke ev f st =
     (case f (world st) of (r, w') \<Rightarrow> (r, \<lparr>world = w', calls = calls st @ [ev]\<rparr>))"

text \<open>Modelled from the spec: the methods of the interface \<open>oauth2.Manager\<close> that
  \<open>server.go\<close> calls, with the signatures of the spec's external interfaces. \<open>GetClient\<close>
  returns the client's domain, the one thing the server reads from a client.\<close>

record 'w Manager =
  GetClient :: "string \<Rightarrow> 'w \<Rightarrow> (string option \<times> err option) \<times> 'w"
  GenerateAuthToken :: "ResponseType \<Rightarrow> TokenGenerateRequest \<Rightarrow> 'w \<Rightarrow> (TokenInfo option \<times> err option) \<times> 'w"
  GenerateAccessToken :: "GrantType \<Rightarrow> TokenGenerateRequest \<Rightarrow> 'w \<Rightarrow> (TokenInfo option \<times> err option) \<times> 'w"
  RefreshAccessToken :: "TokenGenerateRequest \<Rightarrow> 'w \<Rightarrow> (TokenInfo option \<times> err option) \<times> 'w"
  LoadAccessToken :: "string \<Rightarrow> 'w \<Rightarrow> (TokenInfo option \<times> err option) \<times> 'w"
  LoadRefreshToken :: "string \<Rightarrow> 'w \<Rightarrow> (TokenInfo option \<times> err option) \<times> 'w"

text \<open>\<open>Server\<close>, lines 43 to 58: a nil handler is \<open>None\<close>. The handler types are declared
  in \<open>handler.go\<close>, outside the sources at hand; their signatures are those of the spec's
  collaborator capabilities and of the calls in \<open>server.go\<close>. A handler that is given the
  \<open>http.ResponseWriter\<close> returns it as it has left it.\<close>

record 'w Server =
  Config :: Config
  Manager :: "'w Manager"
  ClientInfoHandler :: "(Request \<Rightarrow> 'w \<Rightarrow> (string \<times> string \<times> err option) \<times> 'w) option"
  ClientAuthorizedHandler :: "(string \<Rightarrow> GrantType \<Rightarrow> 'w \<Rightarrow> (bool \<times> err option) \<times> 'w) option"
  ClientScopeHandler :: "(string \<Rightarrow> string \<Rightarrow> 'w \<Rightarrow> (bool \<times> err option) \<times> 'w) option"
  UserAuthorizationHandler ::
    "(ResponseWriter \<Rightarrow> Request \<Rightarrow> 'w \<Rightarrow> (ResponseWriter \<times> string \<times> err option) \<times> 'w) option"
  PasswordAuthorizationHandler :: "(string \<Rightarrow> string \<Rightarrow> 'w \<Rightarrow> (string \<times> err option) \<times> 'w) option"
  RefreshingScopeHandler :: "(string \<Rightarrow> string \<Rightarrow> 'w \<Rightarrow> (bool \<times> err option) \<times> 'w) option"
  ResponseErrorHandler :: "(Response \<Rightarrow> 'w \<Rightarrow> Response \<times> 'w) option"
  InternalErrorHandler :: "(err option \<Rightarrow> 'w \<Rightarrow> Response option \<times> 'w) option"
  ExtensionFieldsHandler :: "(TokenInfo \<Rightarrow> 'w \<Rightarrow> data \<times> 'w) option"
  AccessTokenExpHandler ::
    "(ResponseWriter \<Rightarrow> Request \<Rightarrow> 'w \<Rightarrow> (ResponseWriter \<times> Duration \<times> err option) \<times> 'w) option"
  AuthorizeScopeHandler ::
    "(ResponseWriter \<Rightarrow> Request \<Rightarrow> 'w \<Rightarrow> (ResponseWriter \<times> string \<times> err option) \<times> 'w) option"
  CheckUserPermHandler :: "(string \<Rightarrow> string \<Rightarrow> 'w \<Rightarrow> err option \<times> 'w) option"

text \<open>What a call returns: the function's results, or a run-time panic (a call through a
  nil function value, a method call on a nil interface).\<close>

datatype 'a go = Panic | Return 'a

section \<open>Grant dispatch\<close>

text \<open>The loop of \<open>CheckGrantType\<close> and of \<open>CheckResponseType\<close>: return true at the
  first element equal to the one looked for.\<close>

fun allows :: "string list \<Rightarrow> string \<Rightarrow> bool" where
  "allows [] t = False"
| "allows (a # as) t = (if a = t then True else allows as t)"

definition CheckGrantType :: "'w Server \<Rightarrow> GrantType \<Rightarrow> bool" where
  "CheckGrantType s gt = allows (AllowedGrantTypes (Config s)) gt"

definition CheckResponseType :: "'w Server \<Rightarrow> ResponseType \<Rightarrow> bool" where
  "CheckResponseType s rt = allows (AllowedResponseTypes (Config s)) rt"

text \<open>Lines 361 to 368 of \<open>GetAccessToken\<close>: \<open>Some\<close> is the early return.\<close>

definition client_authorized ::
  "'w Server \<Rightarrow> GrantType \<Rightarrow> TokenGenerateRequest \<Rightarrow> 'w state \<Rightarrow> err option \<times> 'w state" where
  "client_authorized s gt tgr st =
     (case ClientAuthorizedHandler s of
        None \<Rightarrow> (None, st)
      | Some fn \<Rightarrow>
          (case invoke CallClientAuthorized (fn (tgr_ClientID tgr) gt) st of
             ((allowed, e), st1) \<Rightarrow>
               (case e of
                  Some e' \<Rightarrow> (Some (Wrap e' ''client authorized''), st1)
                | None \<Rightarrow>
                    if \<not> allowed then (Some (WithStack ErrUnauthorizedClient), st1)
                    else (None, st1))))"

text \<open>The \<open>Refreshing\<close> case, lines 395 to 411: the scope check. \<open>Some\<close> is the early
  return; \<open>rti.GetScope()\<close> on a nil \<open>rti\<close> panics.\<close>

definition refreshing_scope_check ::
  "'w Server \<Rightarrow> TokenGenerateRequest \<Rightarrow> 'w state \<Rightarrow> (err go) option \<times> 'w state" where
  "refreshing_scope_check s tgr st =
     (case RefreshingScopeHandler s of
        None \<Rightarrow> (None, st)
      | Some scopeFn \<Rightarrow>
          if tgr_Scope tgr = [] then (None, st)
          else
            (case invoke CallLoadRefreshToken (LoadRefreshToken (Manager s) (tgr_Refresh tgr)) st of
               ((rti, e), st1) \<Rightarrow>
                 (case e of
                    Some e' \<Rightarrow>
                      if e' = ErrInvalidRefreshToken \<or> e' = ErrExpiredRefreshToken
                      then (Some (Return ErrInvalidGrant), st1)
                      else (Some (Return e'), st1)
                  | None \<Rightarrow>
                      (case rti of
                         None \<Rightarrow> (Some Panic, st1)
                       | Some rti' \<Rightarrow>
                           (case invoke CallRefreshingScope
                                   (scopeFn (tgr_Scope tgr) (GetScope rti')) st1 of
                              ((allowed, e2), st2) \<Rightarrow>
                                (case e2 of
                                   Some e2' \<Rightarrow> (Some (Return e2'), st2)
                                 | None \<Rightarrow>
                                     if \<not> allowed then (Some (Return ErrInvalidScope), st2)
                                     else (None, st2)))))))"

definition GetAccessToken ::
  "oauth2_consts \<Rightarrow> 'w Server \<Rightarrow> GrantType \<Rightarrow> TokenGenerateRequest \<Rightarrow> 'w state
     \<Rightarrow> (TokenInfo option \<times> err option) go \<times> 'w state" where
  "GetAccessToken c s gt tgr st =
     (if \<not> CheckGrantType s gt then
        (Return (None, Some (Wrap ErrUnauthorizedClient
                               (''check grant type '' @ GrantType_String c gt))), st)
      else
        (case client_authorized s gt tgr st of
           (Some e, st1) \<Rightarrow> (Return (None, Some e), st1)
         | (None, st1) \<Rightarrow>
             if gt = AuthorizationCode c then
               (case invoke CallGenerateAccessToken (GenerateAccessToken (Manager s) gt tgr) st1 of
                  ((ti, e), st2) \<Rightarrow>
                    (case e of
                       Some e' \<Rightarrow>
                         if e' = ErrInvalidAuthorizeCode
                         then (Return (None, Some (WithStack ErrInvalidGrant)), st2)
                         else if e' = ErrInvalidClient
                         then (Return (None, Some (WithStack ErrInvalidClient)), st2)
                         else (Return (None, Some (WithStack e')), st2)
                     | None \<Rightarrow> (Return (ti, None), st2)))
             else if gt = PasswordCredentials c \<or> gt = ClientCredentials c then
               (case (case ClientScopeHandler s of
                        None \<Rightarrow> (None, st1)
                      | Some fn \<Rightarrow>
                          (case invoke CallClientScope (fn (tgr_ClientID tgr) (tgr_Scope tgr)) st1 of
                             ((allowed, e), st2) \<Rightarrow>
                               (case e of
                                  Some e' \<Rightarrow> (Some e', st2)
                                | None \<Rightarrow>
                                    if \<not> allowed then (Some ErrInvalidScope, st2)
                                    else (None, st2)))) of
                  (Some e, st2) \<Rightarrow> (Return (None, Some e), st2)
                | (None, st2) \<Rightarrow>
                    (case invoke CallGenerateAccessToken
                            (GenerateAccessToken (Manager s) gt tgr) st2 of
                       (r, st3) \<Rightarrow> (Return r, st3)))
             else if gt = Refreshing c then
               (case refreshing_scope_check s tgr st1 of
                  (Some Panic, st2) \<Rightarrow> (Panic, st2)
                | (Some (Return e), st2) \<Rightarrow> (Return (None, Some e), st2)
                | (None, st2) \<Rightarrow>
                    (case invoke CallRefreshAccessToken (RefreshAccessToken (Manager s) tgr) st2 of
                       ((ti, e), st3) \<Rightarrow>
                         (case e of
                            Some e' \<Rightarrow>
                              if e' = ErrInvalidRefreshToken \<or> e' = ErrExpiredRefreshToken
                              then (Return (None, Some ErrInvalidGrant), st3)
                              else (Return (None, Some e'), st3)
                          | None \<Rightarrow> (Return (ti, None), st3))))
             else (Return (None, Some ErrUnsupportedGrantType), st1)))"

section \<open>Request validation\<close>

definition ValidationAuthorizeRequest ::
  "oauth2_consts \<Rightarrow> 'w Server \<Rightarrow> Request \<Rightarrow> err + AuthorizeRequest" where
  "ValidationAuthorizeRequest c s r =
     (let redirectURI = FormValue r ''redirect_uri'';
          clientID = FormValue r ''client_id''
      in if \<not> (Method r = ''GET'' \<or> Method r = ''POST'') \<or> clientID = []
         then Inl ErrInvalidRequest
         else
           (let resType = FormValue r ''response_type''
            in if ResponseType_String c resType = [] then Inl ErrUnsupportedResponseType
               else if \<not> CheckResponseType s resType then Inl ErrUnauthorizedClient
               else Inr \<lparr>RedirectURI = redirectURI, ResponseType = resType,
                         ClientID = clientID, State = FormValue r ''state'',
                         Scope = FormValue r ''scope'', UserID = [], AccessTokenExp = 0,
                         Request = r\<rparr>))"

text \<open>The \<open>PasswordCredentials\<close> case of \<open>ValidationTokenRequest\<close>, lines 316 to 332.
  Neither handler is compared with nil before it is called: a nil one panics.\<close>

definition password_case ::
  "'w Server \<Rightarrow> Request \<Rightarrow> GrantType \<Rightarrow> TokenGenerateRequest \<Rightarrow> 'w state
     \<Rightarrow> (err + GrantType \<times> TokenGenerateRequest) go \<times> 'w state" where
  "password_case s r gt tgr0 st =
     (let tgr = tgr0\<lparr>tgr_Scope := FormValue r ''scope''\<rparr>;
          username = FormValue r ''username'';
          password = FormValue r ''password''
      in if username = [] \<or> password = [] then (Return (Inl ErrInvalidRequest), st)
         else
           (case PasswordAuthorizationHandler s of
              None \<Rightarrow> (Panic, st)
            | Some pfn \<Rightarrow>
                (case invoke CallPasswordAuthorization (pfn username password) st of
                   ((userID, e), st1) \<Rightarrow>
                     (case e of
                        Some e' \<Rightarrow> (Return (Inl e'), st1)
                      | None \<Rightarrow>
                          if userID = [] then (Return (Inl ErrInvalidGrant), st1)
                          else
                            (case CheckUserPermHandler s of
                               None \<Rightarrow> (Panic, st1)
                             | Some cfn \<Rightarrow>
                                 (case invoke CallCheckUserPerm
                                         (cfn userID (FormValue r ''client_id'')) st1 of
                                    (e2, st2) \<Rightarrow>
                                      (case e2 of
                                         Some e2' \<Rightarrow> (Return (Inl e2'), st2)
                                       | None \<Rightarrow>
                                           (Return (Inr (gt, tgr\<lparr>tgr_UserID := userID\<rparr>)),
                                            st2))))))))"

definition ValidationTokenRequest ::
  "oauth2_consts \<Rightarrow> 'w Server \<Rightarrow> Request \<Rightarrow> 'w state
     \<Rightarrow> (err + GrantType \<times> TokenGenerateRequest) go \<times> 'w state" where
  "ValidationTokenRequest c s r st =
     (if \<not> (Method r = ''POST'' \<or> (AllowGetAccessRequest (Config s) \<and> Method r = ''GET''))
      then (Return (Inl (Wrap ErrInvalidRequest ''invalid request method'')), st)
      else
        (let gt = FormValue r ''grant_type''
         in if GrantType_String c gt = []
            then (Return (Inl (Wrap ErrUnsupportedGrantType ''no grant type'')), st)
            else
              (case ClientInfoHandler s of
                 None \<Rightarrow> (Panic, st)
               | Some fn \<Rightarrow>
                   (case invoke CallClientInfo (fn r) st of
                      ((clientID, clientSecret, e), st1) \<Rightarrow>
                        (case e of
                           Some e' \<Rightarrow> (Return (Inl (WithStack e')), st1)
                         | None \<Rightarrow>
                             (let tgr = \<lparr>tgr_ClientID = clientID,
                                         tgr_ClientSecret = clientSecret,
                                         tgr_UserID = [], tgr_RedirectURI = [], tgr_Code = [],
                                         tgr_Refresh = [], tgr_Scope = [],
                                         tgr_AccessTokenExp = 0, tgr_Request = r\<rparr>
                              in if gt = AuthorizationCode c then
                                   (let tgr1 = tgr\<lparr>tgr_RedirectURI := FormValue r ''redirect_uri'',
                                                   tgr_Code := FormValue r ''code''\<rparr>
                                    in if tgr_RedirectURI tgr1 = [] \<or> tgr_Code tgr1 = []
                                       then (Return (Inl (Wrap ErrInvalidRequest
                                                       ''missing redirect_uri or code'')), st1)
                                       else (Return (Inr (gt, tgr1)), st1))
                                 else if gt = PasswordCredentials c then
                                   password_case s r gt tgr st1
                                 else if gt = ClientCredentials c then
                                   (Return (Inr (gt, tgr\<lparr>tgr_Scope := FormValue r ''scope''\<rparr>)),
                                    st1)
                                 else if gt = Refreshing c then
                                   (let tgr1 = tgr\<lparr>tgr_Refresh := FormValue r ''refresh_token'',
                                                   tgr_Scope := FormValue r ''scope''\<rparr>
                                    in if tgr_Refresh tgr1 = []
                                       then (Return (Inl ErrInvalidRequest), st1)
                                       else (Return (Inr (gt, tgr1)), st1))
                                 else (Return (Inr (gt, tgr)), st1)))))))"

section \<open>Construction\<close>

text \<open>Modelled from the spec: \<open>ClientBasicHandler\<close>, the default client-info collaborator,
  is declared in \<open>handler.go\<close>, outside the sources at hand. The client's id and secret
  are the user name and password of the request's Basic authorization, and a request
  without one is refused with \<open>ErrInvalidClient\<close>. \<open>BasicAuth\<close> is \<open>Request.BasicAuth\<close> of
  \<open>net/http\<close>, a parameter.\<close>

definition ClientBasicHandler ::
  "(Request \<Rightarrow> (string \<times> string) option) \<Rightarrow> Request \<Rightarrow> 'w
     \<Rightarrow> (string \<times> string \<times> err option) \<times> 'w" where
  "ClientBasicHandler BasicAuth r w =
     (case BasicAuth r of
        None \<Rightarrow> (([], [], Some ErrInvalidClient), w)
      | Some (username, password) \<Rightarrow> ((username, password, None), w))"

text \<open>\<open>NewServer\<close>, with the default client-info handler as a parameter. Every field the
  constructor does not set is nil.\<close>

definition NewServer ::
  "(Request \<Rightarrow> 'w \<Rightarrow> (string \<times> string \<times> err option) \<times> 'w) \<Rightarrow> Config \<Rightarrow> 'w Manager
     \<Rightarrow> 'w Server" where
  "NewServer clientBasicHandler cfg manager =
     \<lparr>Config = cfg, Manager = manager,
      ClientInfoHandler = Some clientBasicHandler,
      ClientAuthorizedHandler = None,
      ClientScopeHandler = None,
      UserAuthorizationHandler = Some (\<lambda>w r wd. ((w, [], Some ErrAccessDenied), wd)),
      PasswordAuthorizationHandler = Some (\<lambda>username password wd. (([], Some ErrAccessDenied), wd)),
      RefreshingScopeHandler = None,
      ResponseErrorHandler = None,
      InternalErrorHandler = None,
      ExtensionFieldsHandler = None,
      AccessTokenExpHandler = None,
      AuthorizeScopeHandler = None,
      CheckUserPermHandler = None\<rparr>"

section \<open>Token response\<close>

text \<open>A Go map is an association list here, read with \<open>map_of\<close>. \<open>map_set\<close> is
  \<open>m[k] = v\<close>.\<close>

definition map_set :: "'k \<Rightarrow> 'v \<Rightarrow> ('k \<times> 'v) list \<Rightarrow> ('k \<times> 'v) list" where
  "map_set k v m = AList.update k v m"

text \<open>The loop of \<open>GetTokenData\<close> over the extension fields: a key already in \<open>data\<close> is
  skipped.\<close>

fun merge_ext :: "data \<Rightarrow> data \<Rightarrow> data" where
  "merge_ext d [] = d"
| "merge_ext d ((k, v) # ext) =
     (if map_of d k \<noteq> None then merge_ext d ext else merge_ext (map_set k v d) ext)"

text \<open>\<open>time.Second\<close>, in nanoseconds. Go's \<open>/\<close> on integers truncates towards zero:
  \<open>sdiv\<close>.\<close>

definition Second :: Duration where
  "Second = 1000000000"

definition core_fields :: "'w Server \<Rightarrow> TokenInfo \<Rightarrow> data" where
  "core_fields s ti =
     (let data = [(''access_token'', VString (GetAccess ti)),
                  (''token_type'', VString (TokenType (Config s))),
                  (''expires_in'', VInt (GetAccessExpiresIn ti sdiv Second))];
          data1 = (if GetScope ti \<noteq> [] then map_set ''scope'' (VString (GetScope ti)) data
                   else data)
      in if GetRefresh ti \<noteq> [] then map_set ''refresh_token'' (VString (GetRefresh ti)) data1
         else data1)"

definition GetTokenData :: "'w Server \<Rightarrow> TokenInfo option \<Rightarrow> 'w state \<Rightarrow> data go \<times> 'w state" where
  "GetTokenData s ti st =
     (case ti of
        None \<Rightarrow> (Panic, st)
      | Some ti' \<Rightarrow>
          (let data = core_fields s ti'
           in case ExtensionFieldsHandler s of
                None \<Rightarrow> (Return data, st)
              | Some fn \<Rightarrow>
                  (case invoke CallExtensionFields (fn ti') st of
                     (ext, st1) \<Rightarrow> (Return (merge_ext data ext), st1))))"

definition GetAuthorizeData ::
  "oauth2_consts \<Rightarrow> 'w Server \<Rightarrow> ResponseType \<Rightarrow> TokenInfo option \<Rightarrow> 'w state
     \<Rightarrow> data go \<times> 'w state" where
  "GetAuthorizeData c s rt ti st =
     (if rt = Code c then
        (case ti of
           None \<Rightarrow> (Panic, st)
         | Some ti' \<Rightarrow> (Return [(''code'', VString (GetCode ti'))], st))
      else GetTokenData s ti st)"

section \<open>Error mapping\<close>

text \<open>
  The two tables of package \<open>errors\<close> and the text of its sentinels (their \<open>Error\<close>
  method). They are declared in another package of the repository and are a parameter here.
  A Go map indexed with a missing key gives the zero value: \<open>lookup0\<close>, \<open>lookup_empty\<close>.
\<close>

record errors_pkg =
  Descriptions :: "err option \<Rightarrow> string option"
  StatusCodes :: "err option \<Rightarrow> int option"
  SentinelText :: "err \<Rightarrow> string"

definition lookup_empty :: "('k \<Rightarrow> string option) \<Rightarrow> 'k \<Rightarrow> string" where
  "lookup_empty m k = (case m k of Some v \<Rightarrow> v | None \<Rightarrow> [])"

definition lookup0 :: "('k \<Rightarrow> int option) \<Rightarrow> 'k \<Rightarrow> int" where
  "lookup0 m k = (case m k of Some v \<Rightarrow> v | None \<Rightarrow> 0)"

text \<open>The \<open>Error\<close> method: \<open>msg: cause\<close> for a message wrapper, the wrapped error's text
  for a stack wrapper.\<close>

fun Error_method :: "errors_pkg \<Rightarrow> err \<Rightarrow> string" where
  "Error_method E (WithMessage e msg) = msg @ '': '' @ Error_method E e"
| "Error_method E (WithStack e) = Error_method E e"
| "Error_method E (ErrOpaque n msg) = msg"
| "Error_method E (ErrUnhashable n msg) = msg"
| "Error_method E e = SentinelText E e"

definition zero_Response :: Response where
  "zero_Response = \<lparr>Error = None, ErrorCode = 0, Description = [], URI = [], StatusCode = 0,
                     Header = []\<rparr>"

text \<open>Lines 478 to 480 of \<open>GetErrorData\<close>: the response for an error of the table, whose
  description is \<open>d\<close>.\<close>

definition table_Response :: "errors_pkg \<Rightarrow> err option \<Rightarrow> string \<Rightarrow> Response" where
  "table_Response E e d =
     zero_Response\<lparr>Error := e, Description := d, StatusCode := lookup0 (StatusCodes E) e\<rparr>"

text \<open>Lines 489 to 491: the three fields taken from \<open>ErrServerError\<close>.\<close>

definition as_ServerError :: "errors_pkg \<Rightarrow> Response \<Rightarrow> Response" where
  "as_ServerError E re =
     re\<lparr>Error := Some ErrServerError,
        Description := lookup_empty (Descriptions E) (Some ErrServerError),
        StatusCode := lookup0 (StatusCodes E) (Some ErrServerError)\<rparr>"

text \<open>What can index a \<open>map[error]\<close>: nil and every error of a comparable dynamic
  type. The index expression panics on any other.\<close>

definition hashable :: "err option \<Rightarrow> bool" where
  "hashable e = (case e of Some (ErrUnhashable n msg) \<Rightarrow> False | _ \<Rightarrow> True)"

text \<open>Lines 476 to 493: the response before \<open>ResponseErrorHandler\<close> sees it. Line 477
  indexes \<open>errors.Descriptions\<close> with the error.\<close>

definition resolve_Response ::
  "errors_pkg \<Rightarrow> 'w Server \<Rightarrow> err option \<Rightarrow> 'w state \<Rightarrow> Response go \<times> 'w state" where
  "resolve_Response E s e st =
     (if \<not> hashable e then (Panic, st)
      else
        (case Descriptions E e of
           Some v \<Rightarrow> (Return (table_Response E e v), st)
         | None \<Rightarrow>
             (case (case InternalErrorHandler s of
                      None \<Rightarrow> (zero_Response, st)
                    | Some fn \<Rightarrow>
                        (case invoke CallInternalError (fn e) st of
                           (Some v, st1) \<Rightarrow> (v, st1)
                         | (None, st1) \<Rightarrow> (zero_Response, st1))) of
                (re, st1) \<Rightarrow>
                  if Error re = None then (Return (as_ServerError E re), st1)
                  else (Return re, st1))))"

text \<open>Lines 499 to 521: the fields of the response, and the status.\<close>

definition error_fields :: "errors_pkg \<Rightarrow> Response \<Rightarrow> data" where
  "error_fields E re =
     (let d0 = (case Error re of
                  Some e \<Rightarrow> map_set ''error'' (VString (Error_method E e)) []
                | None \<Rightarrow> []);
          d1 = (if ErrorCode re \<noteq> 0 then map_set ''error_code'' (VInt (ErrorCode re)) d0 else d0);
          d2 = (if Description re \<noteq> []
                then map_set ''error_description'' (VString (Description re)) d1 else d1)
      in if URI re \<noteq> [] then map_set ''error_uri'' (VString (URI re)) d2 else d2)"

definition StatusInternalServerError :: int where
  "StatusInternalServerError = 500"

definition status_of :: "Response \<Rightarrow> int" where
  "status_of re = (if StatusCode re > 0 then StatusCode re else StatusInternalServerError)"

definition GetErrorData ::
  "errors_pkg \<Rightarrow> 'w Server \<Rightarrow> err option \<Rightarrow> 'w state
     \<Rightarrow> (data \<times> int \<times> (string \<times> string list) list) go \<times> 'w state" where
  "GetErrorData E s e st =
     (case resolve_Response E s e st of
        (Panic, st1) \<Rightarrow> (Panic, st1)
      | (Return re, st1) \<Rightarrow>
          (case (case ResponseErrorHandler s of
                   None \<Rightarrow> (re, st1)
                 | Some fn \<Rightarrow> invoke CallResponseError (fn re) st1) of
             (re', st2) \<Rightarrow> (Return (error_fields E re', status_of re', Header re'), st2)))"

section \<open>Bearer token\<close>

definition HasPrefix :: "string \<Rightarrow> string \<Rightarrow> bool" where
  "HasPrefix s p = (length p \<le> length s \<and> take (length p) s = p)"

definition BearerAuth :: "Request \<Rightarrow> string \<times> bool" where
  "BearerAuth r =
     (let auth = Header_Get r ''Authorization'';
          prefix = ''Bearer '';
          token = (if auth \<noteq> [] \<and> HasPrefix auth prefix then drop (length prefix) auth
                   else FormValue r ''access_token'')
      in (token, token \<noteq> []))"

definition ValidationBearerToken ::
  "'w Server \<Rightarrow> Request \<Rightarrow> 'w state \<Rightarrow> (TokenInfo option \<times> err option) \<times> 'w state" where
  "ValidationBearerToken s r st =
     (case BearerAuth r of
        (accessToken, ok) \<Rightarrow>
          if \<not> ok then ((None, Some ErrInvalidAccessToken), st)
          else invoke CallLoadAccessToken (LoadAccessToken (Manager s) accessToken) st)"

section \<open>Redirect URI\<close>

text \<open>\<open>fmt.Sprint\<close> on a value of the response data: a string as it is, an integer in
  decimal.\<close>

definition digit :: "nat \<Rightarrow> char" where
  "digit d = ''0123456789'' ! d"

function decimal :: "nat \<Rightarrow> string" where
  "decimal n = (if n < 10 then [digit n] else decimal (n div 10) @ [digit (n mod 10)])"
  by pat_completeness auto
termination
  by (relation "measure id") auto

definition Sprint :: "val \<Rightarrow> string" where
  "Sprint v =
     (case v of
        VString s \<Rightarrow> s
      | VInt i \<Rightarrow> if i < 0 then CHR ''-'' # decimal (nat (- i)) else decimal (nat i))"

text \<open>
  \<open>url.Values\<close> is a \<open>map[string][]string\<close>: an association list read with \<open>map_of\<close>.
  \<open>Values.Set\<close> stores one value under the key. \<open>Values.Encode\<close> walks the keys in
  sorted order and writes \<open>key=value\<close> for every value, both escaped, with \<open>&\<close> between
  two of them.
\<close>

type_synonym Values = "(string \<times> string list) list"

definition Values_Set :: "string \<Rightarrow> string \<Rightarrow> Values \<Rightarrow> Values" where
  "Values_Set k v q = map_set k [v] q"

text \<open>\<open>shouldEscape(c, encodeQueryComponent)\<close>: everything but letters, digits and
  \<open>- _ . ~\<close>.\<close>

definition shouldEscape :: "char \<Rightarrow> bool" where
  "shouldEscape c =
     (if (CHR ''a'' \<le> c \<and> c \<le> CHR ''z'') \<or> (CHR ''A'' \<le> c \<and> c \<le> CHR ''Z'')
          \<or> (CHR ''0'' \<le> c \<and> c \<le> CHR ''9'') then False
      else if c = CHR ''-'' \<or> c = CHR ''_'' \<or> c = CHR ''.'' \<or> c = CHR ''~'' then False
      else True)"

definition upperhex :: string where
  "upperhex = ''0123456789ABCDEF''"

definition escape_char :: "char \<Rightarrow> string" where
  "escape_char c =
     (if c = CHR '' '' then ''+''
      else if shouldEscape c
      then [CHR ''%'', upperhex ! (of_char c div 16), upperhex ! (of_char c mod 16)]
      else [c])"

definition QueryEscape :: "string \<Rightarrow> string" where
  "QueryEscape s = concat (map escape_char s)"

definition ishex :: "char \<Rightarrow> bool" where
  "ishex c =
     ((CHR ''0'' \<le> c \<and> c \<le> CHR ''9'') \<or> (CHR ''a'' \<le> c \<and> c \<le> CHR ''f'')
      \<or> (CHR ''A'' \<le> c \<and> c \<le> CHR ''F''))"

definition unhex :: "char \<Rightarrow> nat" where
  "unhex c =
     (if CHR ''0'' \<le> c \<and> c \<le> CHR ''9'' then of_char c - 48
      else if CHR ''a'' \<le> c \<and> c \<le> CHR ''f'' then of_char c - 97 + 10
      else if CHR ''A'' \<le> c \<and> c \<le> CHR ''F'' then of_char c - 65 + 10
      else 0)"

text \<open>\<open>url.QueryUnescape\<close>: \<open>%XX\<close> is the byte \<open>XX\<close>, \<open>+\<close> is a space; a \<open>%\<close> that two
  hexadecimal digits do not follow is an \<open>EscapeError\<close> of at most three bytes.\<close>

fun QueryUnescape :: "string \<Rightarrow> err + string" where
  "QueryUnescape [] = Inr []"
| "QueryUnescape (c # s) =
     (if c = CHR ''%'' then
        (case s of
           a # b # rest \<Rightarrow>
             if ishex a \<and> ishex b
             then map_sum id ((#) (char_of (unhex a * 16 + unhex b))) (QueryUnescape rest)
             else Inl (EscapeError (take 3 (c # s)))
         | _ \<Rightarrow> Inl (EscapeError (take 3 (c # s))))
      else if c = CHR ''+'' then map_sum id ((#) CHR '' '') (QueryUnescape s)
      else map_sum id ((#) c) (QueryUnescape s))"

fun join_amp :: "string list \<Rightarrow> string" where
  "join_amp [] = []"
| "join_amp [x] = x"
| "join_amp (x # y # ys) = x @ CHR ''&'' # join_amp (y # ys)"

definition values_of :: "Values \<Rightarrow> string \<Rightarrow> string list" where
  "values_of q k = (case map_of q k of Some vs \<Rightarrow> vs | None \<Rightarrow> [])"

definition Values_pairs :: "Values \<Rightarrow> (string \<times> string) list" where
  "Values_pairs q =
     concat (map (\<lambda>k. map (Pair k) (values_of q k)) (sort (remdups (map fst q))))"

definition enc_pair :: "string \<times> string \<Rightarrow> string" where
  "enc_pair p = QueryEscape (fst p) @ CHR ''='' # QueryEscape (snd p)"

definition Values_Encode :: "Values \<Rightarrow> string" where
  "Values_Encode q = join_amp (map enc_pair (Values_pairs q))"

text \<open>The same pairs without escaping: what \<open>QueryUnescape\<close> makes of an encoded form.\<close>

definition raw_pair :: "string \<times> string \<Rightarrow> string" where
  "raw_pair p = fst p @ CHR ''='' # snd p"

definition Values_raw :: "Values \<Rightarrow> string" where
  "Values_raw q = join_amp (map raw_pair (Values_pairs q))"

text \<open>A query string has the parameter \<open>k\<close> with the value \<open>v\<close> when one of its
  components between \<open>&\<close> is the escaped \<open>k=v\<close>.\<close>

fun split_amp :: "string \<Rightarrow> string list" where
  "split_amp [] = [[]]"
| "split_amp (c # s) =
     (if c = CHR ''&'' then [] # split_amp s
      else (case split_amp s of x # xs \<Rightarrow> (c # x) # xs | [] \<Rightarrow> [[c]]))"

definition has_param :: "string \<Rightarrow> string \<Rightarrow> string \<Rightarrow> bool" where
  "has_param qs k v = (enc_pair (k, v) \<in> set (split_amp qs))"

text \<open>
  \<open>url.URL\<close>, and the three functions of \<open>net/url\<close> whose results \<open>GetRedirectURI\<close> only
  passes on: \<open>url.Parse\<close>, \<open>url.ParseQuery\<close> (\<open>u.Query()\<close> is \<open>ParseQuery(u.RawQuery)\<close>
  without its error) and \<open>URL.String\<close>. They are a parameter.
\<close>

record URL =
  Scheme :: string
  Opaque :: string
  User :: "(string \<times> string option) option"
  Host :: string
  Path :: string
  RawPath :: string
  ForceQuery :: bool
  RawQuery :: string
  Fragment :: string
  RawFragment :: string

record net_url =
  url_Parse :: "string \<Rightarrow> err + URL"
  url_ParseQuery :: "string \<Rightarrow> Values"
  url_String :: "URL \<Rightarrow> string"

text \<open>Lines 111 to 121 of \<open>GetRedirectURI\<close>: the parameters. \<open>strings.Contains(s, "#")\<close>
  is \<open>CHR ''#'' \<in> set s\<close>.\<close>

definition collect_params :: "net_url \<Rightarrow> AuthorizeRequest \<Rightarrow> URL \<Rightarrow> data \<Rightarrow> Values" where
  "collect_params N req u data =
     (let q0 = (if CHR ''#'' \<in> set (RedirectURI req) then []
                else url_ParseQuery N (RawQuery u));
          q1 = (if State req \<noteq> [] then Values_Set ''state'' (State req) q0 else q0)
      in fold (\<lambda>(k, v) q. Values_Set k (Sprint v) q) data q1)"

definition GetRedirectURI ::
  "oauth2_consts \<Rightarrow> net_url \<Rightarrow> AuthorizeRequest \<Rightarrow> data \<Rightarrow> err + string" where
  "GetRedirectURI c N req data =
     (case url_Parse N (RedirectURI req) of
        Inl e \<Rightarrow> Inl e
      | Inr u \<Rightarrow>
          (let q = collect_params N req u data
           in if ResponseType req = Code c then
                (if CHR ''#'' \<in> set (RedirectURI req)
                 then Inr (RedirectURI req @ CHR ''?'' # Values_Encode q)
                 else Inr (url_String N (u\<lparr>RawQuery := Values_Encode q\<rparr>)))
              else if ResponseType req = Token c then
                (case QueryUnescape (Values_Encode q) of
                   Inl e \<Rightarrow> Inl e
                 | Inr fragment \<Rightarrow>
                     Inr (url_String N (u\<lparr>RawQuery := [], Fragment := fragment\<rparr>)))
              else Inr (url_String N u)))"

section \<open>Example instances\<close>

text \<open>One instance of the parameters, used to run the definitions: constants, a manager and
  handlers whose state counts their calls, requests, error tables, and URLs.\<close>

text \<open>The two \<open>String\<close> methods: the text of a known type, and the empty string for
  any other value.\<close>

definition ex_ResponseType_String :: "ResponseType \<Rightarrow> string" where
  "ex_ResponseType_String rt = (if rt = ''code'' \<or> rt = ''token'' then rt else [])"

definition ex_GrantType_String :: "GrantType \<Rightarrow> string" where
  "ex_GrantType_String gt =
     (if gt = ''authorization_code'' \<or> gt = ''password'' \<or> gt = ''client_credentials''
         \<or> gt = ''refresh_token''
      then gt else [])"

definition ex_consts :: oauth2_consts where
  "ex_consts =
     \<lparr>Code = ''code'', Token = ''token'',
      AuthorizationCode = ''authorization_code'', PasswordCredentials = ''password'',
      ClientCredentials = ''client_credentials'', Refreshing = ''refresh_token'',
      Implicit = ''__implicit'',
      ResponseType_String = ex_ResponseType_String,
      GrantType_String = ex_GrantType_String\<rparr>"

definition ex_config :: Config where
  "ex_config =
     \<lparr>TokenType = ''Bearer'',
      AllowedResponseTypes = [''code'', ''token''],
      AllowedGrantTypes = [''authorization_code'', ''password'', ''refresh_token''],
      AllowGetAccessRequest = False\<rparr>"

definition ex_token :: TokenInfo where
  "ex_token =
     \<lparr>GetAccess = ''tok1'', GetRefresh = [], GetScope = ''read'',
      GetAccessExpiresIn = 7200 * Second, GetCode = ''abc123''\<rparr>"

definition ex_manager :: "nat Manager" where
  "ex_manager =
     \<lparr>GetClient = (\<lambda>cid w. ((Some ''https://app'', None), Suc w)),
      GenerateAuthToken = (\<lambda>rt tgr w. ((Some ex_token, None), Suc w)),
      GenerateAccessToken = (\<lambda>gt tgr w. ((Some ex_token, None), Suc w)),
      RefreshAccessToken = (\<lambda>tgr w. ((Some ex_token, None), Suc w)),
      LoadAccessToken = (\<lambda>a w. ((Some ex_token, None), Suc w)),
      LoadRefreshToken = (\<lambda>a w. ((Some ex_token, None), Suc w))\<rparr>"

text \<open>\<open>Request.BasicAuth\<close> on the requests of the examples: \<open>YzE6c2VjcmV0\<close> is the
  base64 form of \<open>c1:secret\<close>, and a request without the header has no credentials.\<close>

definition ex_BasicAuth :: "Request \<Rightarrow> (string \<times> string) option" where
  "ex_BasicAuth r =
     (if Header_Get r ''Authorization'' = ''Basic YzE6c2VjcmV0'' then Some (''c1'', ''secret'')
      else None)"

definition ex_server :: "nat Server" where
  "ex_server = NewServer (ClientBasicHandler ex_BasicAuth) ex_config ex_manager"

definition ex_code_only_server :: "nat Server" where
  "ex_code_only_server = ex_server\<lparr>Config := ex_config\<lparr>AllowedResponseTypes := [''code'']\<rparr>\<rparr>"

definition ex_state :: "nat state" where
  "ex_state = \<lparr>world = 0, calls = []\<rparr>"

definition ex_request :: "string \<Rightarrow> (string \<times> string list) list \<Rightarrow> Request" where
  "ex_request m form = \<lparr>Method = m, Form = form, ReqHeader = []\<rparr>"

definition ex_tgr :: TokenGenerateRequest where
  "ex_tgr =
     \<lparr>tgr_ClientID = ''c1'', tgr_ClientSecret = ''secret'', tgr_UserID = [],
      tgr_RedirectURI = ''https://app/cb'', tgr_Code = ''abc123'', tgr_Refresh = ''r1'',
      tgr_Scope = ''admin'', tgr_AccessTokenExp = 0,
      tgr_Request = ex_request ''POST'' []\<rparr>"

definition ex_client_ok :: "string \<Rightarrow> GrantType \<Rightarrow> nat \<Rightarrow> (bool \<times> err option) \<times> nat" where
  "ex_client_ok cid gt w = ((True, None), Suc w)"

definition ex_scope_allow :: "string \<Rightarrow> string \<Rightarrow> nat \<Rightarrow> (bool \<times> err option) \<times> nat" where
  "ex_scope_allow new old w = ((True, None), Suc w)"

definition ex_scope_refuse :: "string \<Rightarrow> string \<Rightarrow> nat \<Rightarrow> (bool \<times> err option) \<times> nat" where
  "ex_scope_refuse new old w = ((False, None), Suc w)"

definition ex_scope_error :: "string \<Rightarrow> string \<Rightarrow> nat \<Rightarrow> (bool \<times> err option) \<times> nat" where
  "ex_scope_error new old w = ((True, Some (ErrOpaque 1 ''policy store down'')), Suc w)"

definition ex_generate_fails ::
  "err \<Rightarrow> GrantType \<Rightarrow> TokenGenerateRequest \<Rightarrow> nat \<Rightarrow> (TokenInfo option \<times> err option) \<times> nat" where
  "ex_generate_fails e gt tgr w = ((None, Some e), Suc w)"

definition ex_load_fails :: "err \<Rightarrow> string \<Rightarrow> nat \<Rightarrow> (TokenInfo option \<times> err option) \<times> nat" where
  "ex_load_fails e a w = ((None, Some e), Suc w)"

definition ex_refresh_fails ::
  "err \<Rightarrow> TokenGenerateRequest \<Rightarrow> nat \<Rightarrow> (TokenInfo option \<times> err option) \<times> nat" where
  "ex_refresh_fails e tgr w = ((None, Some e), Suc w)"

definition ex_password_ok :: "string \<Rightarrow> string \<Rightarrow> nat \<Rightarrow> (string \<times> err option) \<times> nat" where
  "ex_password_ok username password w = ((''u1'', None), Suc w)"

definition ex_password_form :: "(string \<times> string list) list" where
  "ex_password_form =
     [(''grant_type'', [''password'']), (''username'', [''alice'']),
      (''password'', [''pw'']), (''client_id'', [''c1''])]"

definition ex_password_request :: Request where
  "ex_password_request =
     \<lparr>Method = ''POST'', Form = ex_password_form,
      ReqHeader = [(''Authorization'', [''Basic YzE6c2VjcmV0''])]\<rparr>"

definition ex_authorize_request :: "string \<Rightarrow> string \<Rightarrow> string \<Rightarrow> Request" where
  "ex_authorize_request m cid rt =
     ex_request m
       [(''redirect_uri'', [''https://app/cb'']), (''client_id'', [cid]),
        (''response_type'', [rt]), (''state'', [''xyz''])]"










definition ex_ext :: "TokenInfo \<Rightarrow> nat \<Rightarrow> data \<times> nat" where
  "ex_ext ti w = ([(''scope'', VString ''admin''), (''access_token'', VString ''forged'')], Suc w)"

definition ex_expired_token :: TokenInfo where
  "ex_expired_token =
     \<lparr>GetAccess = ''tok1'', GetRefresh = [], GetScope = [],
      GetAccessExpiresIn = - 1500000000, GetCode = []\<rparr>"

definition ex_bearer_request :: "string list \<Rightarrow> string list \<Rightarrow> Request" where
  "ex_bearer_request auth form =
     \<lparr>Method = ''GET'', Form = [(''access_token'', form)],
      ReqHeader = [(''Authorization'', auth)]\<rparr>"

definition ex_url_app :: URL where
  "ex_url_app =
     \<lparr>Scheme = ''https'', Opaque = [], User = None, Host = ''app'', Path = ''/cb'',
      RawPath = [], ForceQuery = False, RawQuery = [], Fragment = [], RawFragment = []\<rparr>"

definition ex_Parse :: "string \<Rightarrow> err + URL" where
  "ex_Parse s =
     (if s = ''https://app/cb'' then Inr ex_url_app
      else if s = ''https://app/cb?x=1#top''
      then Inr (ex_url_app\<lparr>RawQuery := ''x=1'', Fragment := ''top'', RawFragment := ''top''\<rparr>)
      else if s = ''https://app/cb?x=1'' then Inr (ex_url_app\<lparr>RawQuery := ''x=1''\<rparr>)
      else Inl (ErrOpaque 2 ''parse''))"

definition ex_ParseQuery :: "string \<Rightarrow> Values" where
  "ex_ParseQuery s = (if s = ''x=1'' then [(''x'', [''1''])] else [])"

definition ex_String :: "URL \<Rightarrow> string" where
  "ex_String u =
     Scheme u @ ''://'' @ Host u @ Path u
     @ (if RawQuery u = [] then [] else CHR ''?'' # RawQuery u)
     @ (if Fragment u = [] then [] else CHR ''#'' # Fragment u)"

definition ex_net_url :: net_url where
  "ex_net_url = \<lparr>url_Parse = ex_Parse, url_ParseQuery = ex_ParseQuery, url_String = ex_String\<rparr>"

definition ex_areq :: "string \<Rightarrow> ResponseType \<Rightarrow> AuthorizeRequest" where
  "ex_areq uri rt =
     \<lparr>RedirectURI = uri, ResponseType = rt, ClientID = ''c1'', State = ''xyz'', Scope = [],
      UserID = ''u1'', AccessTokenExp = 0, Request = ex_authorize_request ''GET'' ''c1'' rt\<rparr>"


section \<open>Properties of the grant dispatch\<close>

lemma allows_iff: "allows xs t \<longleftrightarrow> t \<in> set xs"
  by (induction xs) auto

lemma Cause_Wrap: "Cause (Wrap e msg) = Cause e"
  by (simp add: Wrap_def)

text \<open>
  C1. For every grant type that is not in \<open>Config.AllowedGrantTypes\<close>, \<open>GetAccessToken\<close>
  returns no token and an error whose cause is \<open>ErrUnauthorizedClient\<close>, and it returns
  before any call: the list of calls and the collaborators' state are as they were, whatever
  handlers and manager the server holds.
\<close>

theorem GetAccessToken_grant_not_allowed:
  assumes "gt \<notin> set (AllowedGrantTypes (Config s))"
  shows "GetAccessToken c s gt tgr st =
           (Return (None, Some (Wrap ErrUnauthorizedClient
                                  (''check grant type '' @ GrantType_String c gt))), st)
         \<and> Cause (Wrap ErrUnauthorizedClient (''check grant type '' @ GrantType_String c gt))
             = ErrUnauthorizedClient"
  using assms by (simp add: GetAccessToken_def CheckGrantType_def allows_iff Cause_Wrap)

lemmas ex_defs = ex_consts_def ex_ResponseType_String_def ex_GrantType_String_def ex_config_def
  ex_token_def ex_manager_def ex_server_def ex_code_only_server_def ex_state_def ex_request_def
  ex_tgr_def NewServer_def

theorem GetAccessToken_grant_not_allowed_witness:
  "''implicit'' \<notin> set (AllowedGrantTypes (Config ex_server))
   \<and> GetAccessToken ex_consts ex_server ''implicit'' ex_tgr ex_state =
       (Return (None, Some (Wrap ErrUnauthorizedClient ''check grant type '')), ex_state)
   \<and> Cause (Wrap ErrUnauthorizedClient ''check grant type '') = ErrUnauthorizedClient"
  using GetAccessToken_grant_not_allowed [of "''implicit''" ex_server ex_consts ex_tgr ex_state]
  by (simp add: ex_defs)

text \<open>
  C3. The \<open>AuthorizationCode\<close> grant, allowed by the configuration and with the client
  authorized (no \<open>ClientAuthorizedHandler\<close>, or one that approves: \<open>client_authorized\<close>
  returns no error). The one call made after the client check is the manager's
  \<open>GenerateAccessToken\<close>. Without a manager error its token is returned as it is. The manager
  error \<open>ErrInvalidAuthorizeCode\<close> is returned as \<open>ErrInvalidGrant\<close> and \<open>ErrInvalidClient\<close>
  as \<open>ErrInvalidClient\<close>, each under a stack wrapper; any other manager error is returned
  under a stack wrapper, so the cause of the returned error is the cause of the manager's.
\<close>

theorem GetAccessToken_authorization_code:
  assumes "AuthorizationCode c \<in> set (AllowedGrantTypes (Config s))"
    and "client_authorized s (AuthorizationCode c) tgr st = (None, st1)"
    and "GenerateAccessToken (Manager s) (AuthorizationCode c) tgr (world st1) = ((ti, e), w')"
  shows "snd (GetAccessToken c s (AuthorizationCode c) tgr st)
           = \<lparr>world = w', calls = calls st1 @ [CallGenerateAccessToken]\<rparr>
       \<and> (e = None \<longrightarrow> fst (GetAccessToken c s (AuthorizationCode c) tgr st) = Return (ti, None))
       \<and> (e = Some ErrInvalidAuthorizeCode \<longrightarrow>
            fst (GetAccessToken c s (AuthorizationCode c) tgr st)
              = Return (None, Some (WithStack ErrInvalidGrant))
            \<and> Cause (WithStack ErrInvalidGrant) = ErrInvalidGrant)
       \<and> (e = Some ErrInvalidClient \<longrightarrow>
            fst (GetAccessToken c s (AuthorizationCode c) tgr st)
              = Return (None, Some (WithStack ErrInvalidClient))
            \<and> Cause (WithStack ErrInvalidClient) = ErrInvalidClient)
       \<and> (\<forall>e'. e = Some e' \<and> e' \<noteq> ErrInvalidAuthorizeCode \<longrightarrow>
            fst (GetAccessToken c s (AuthorizationCode c) tgr st)
              = Return (None, Some (WithStack e'))
            \<and> Cause (WithStack e') = Cause e')"
  using assms
  by (auto simp: GetAccessToken_def CheckGrantType_def allows_iff invoke_def split: option.splits)

theorem GetAccessToken_authorization_code_witness:
  "client_authorized (ex_server\<lparr>ClientAuthorizedHandler := Some ex_client_ok\<rparr>)
       ''authorization_code'' ex_tgr ex_state
     = (None, \<lparr>world = 1, calls = [CallClientAuthorized]\<rparr>)
   \<and> snd (GetAccessToken ex_consts (ex_server\<lparr>ClientAuthorizedHandler := Some ex_client_ok\<rparr>)
            ''authorization_code'' ex_tgr ex_state)
       = \<lparr>world = 2, calls = [CallClientAuthorized, CallGenerateAccessToken]\<rparr>
   \<and> fst (GetAccessToken ex_consts (ex_server\<lparr>ClientAuthorizedHandler := Some ex_client_ok\<rparr>)
            ''authorization_code'' ex_tgr ex_state)
       = Return (Some ex_token, None)
   \<and> fst (GetAccessToken ex_consts
            (ex_server\<lparr>Manager := ex_manager
               \<lparr>GenerateAccessToken := ex_generate_fails ErrInvalidAuthorizeCode\<rparr>\<rparr>)
            ''authorization_code'' ex_tgr ex_state)
       = Return (None, Some (WithStack ErrInvalidGrant))
   \<and> fst (GetAccessToken ex_consts
            (ex_server\<lparr>Manager := ex_manager
               \<lparr>GenerateAccessToken := ex_generate_fails ErrInvalidClient\<rparr>\<rparr>)
            ''authorization_code'' ex_tgr ex_state)
       = Return (None, Some (WithStack ErrInvalidClient))
   \<and> fst (GetAccessToken ex_consts
            (ex_server\<lparr>Manager := ex_manager
               \<lparr>GenerateAccessToken := ex_generate_fails (Wrap ErrServerError ''store'')\<rparr>\<rparr>)
            ''authorization_code'' ex_tgr ex_state)
       = Return (None, Some (WithStack (Wrap ErrServerError ''store'')))
   \<and> Cause (WithStack (Wrap ErrServerError ''store'')) = ErrServerError"
  using
    GetAccessToken_authorization_code [of ex_consts
      "ex_server\<lparr>ClientAuthorizedHandler := Some ex_client_ok\<rparr>" ex_tgr ex_state
      "\<lparr>world = 1, calls = [CallClientAuthorized]\<rparr>" "Some ex_token" None 2]
    GetAccessToken_authorization_code [of ex_consts
      "ex_server\<lparr>Manager := ex_manager
         \<lparr>GenerateAccessToken := ex_generate_fails ErrInvalidAuthorizeCode\<rparr>\<rparr>" ex_tgr ex_state
      ex_state None "Some ErrInvalidAuthorizeCode" 1]
    GetAccessToken_authorization_code [of ex_consts
      "ex_server\<lparr>Manager := ex_manager
         \<lparr>GenerateAccessToken := ex_generate_fails ErrInvalidClient\<rparr>\<rparr>" ex_tgr ex_state
      ex_state None "Some ErrInvalidClient" 1]
    GetAccessToken_authorization_code [of ex_consts
      "ex_server\<lparr>Manager := ex_manager
         \<lparr>GenerateAccessToken := ex_generate_fails (Wrap ErrServerError ''store'')\<rparr>\<rparr>"
      ex_tgr ex_state ex_state None "Some (Wrap ErrServerError ''store'')" 1]
  by (simp add: ex_defs client_authorized_def invoke_def ex_client_ok_def ex_generate_fails_def
      Wrap_def)

text \<open>
  C2, as the specification states it, fails: a \<open>RefreshingScopeHandler\<close> that answers with an
  error is neither a refusal reported as \<open>ErrInvalidScope\<close> nor followed by
  \<open>RefreshAccessToken\<close>. Here the handler answers \<open>(true, err)\<close>: the call returns \<open>err\<close>
  itself, after \<open>LoadRefreshToken\<close> and the handler, and the manager's refresh is not called.
\<close>

theorem GetAccessToken_refreshing_counterexample:
  "ex_scope_error ''admin'' ''read'' 1 = ((True, Some (ErrOpaque 1 ''policy store down'')), 2)
   \<and> GetAccessToken ex_consts (ex_server\<lparr>RefreshingScopeHandler := Some ex_scope_error\<rparr>)
        ''refresh_token'' ex_tgr ex_state
     = (Return (None, Some (ErrOpaque 1 ''policy store down'')),
        \<lparr>world = 2, calls = [CallLoadRefreshToken, CallRefreshingScope]\<rparr>)"
  by (simp add: ex_defs GetAccessToken_def CheckGrantType_def client_authorized_def
      refreshing_scope_check_def invoke_def ex_scope_error_def)

text \<open>
  C2, amended. A \<open>Refreshing\<close> grant that the configuration allows, with the client
  authorized, a non-empty \<open>tgr.Scope\<close> and a \<open>RefreshingScopeHandler\<close>. The first call after
  the client check is the manager's \<open>LoadRefreshToken\<close>. If it fails, nothing else is called
  and its error is returned, \<open>ErrInvalidRefreshToken\<close> and \<open>ErrExpiredRefreshToken\<close> as
  \<open>ErrInvalidGrant\<close>. If it gives a token, the handler is asked with the requested scope and
  the token's scope: when the handler answers with an error, that error is returned; when it
  refuses, \<open>ErrInvalidScope\<close> is returned; in both cases \<open>RefreshAccessToken\<close> is not called.
  When it allows, \<open>RefreshAccessToken\<close> is called, its token returned as it is, and its errors
  \<open>ErrInvalidRefreshToken\<close> and \<open>ErrExpiredRefreshToken\<close> returned as \<open>ErrInvalidGrant\<close>.
\<close>

theorem GetAccessToken_refreshing_scope:
  assumes "Refreshing c \<in> set (AllowedGrantTypes (Config s))"
    and "client_authorized s (Refreshing c) tgr st = (None, st1)"
    and "Refreshing c \<notin> {AuthorizationCode c, PasswordCredentials c, ClientCredentials c}"
    and "tgr_Scope tgr \<noteq> []"
    and "RefreshingScopeHandler s = Some scopeFn"
    and "LoadRefreshToken (Manager s) (tgr_Refresh tgr) (world st1) = ((rti, le), w1)"
  shows
    "(\<forall>e. le = Some e \<longrightarrow>
        GetAccessToken c s (Refreshing c) tgr st =
          (Return (None, Some (if e = ErrInvalidRefreshToken \<or> e = ErrExpiredRefreshToken
                               then ErrInvalidGrant else e)),
           \<lparr>world = w1, calls = calls st1 @ [CallLoadRefreshToken]\<rparr>))
     \<and> (\<forall>t ok se w2.
          le = None \<and> rti = Some t \<and> scopeFn (tgr_Scope tgr) (GetScope t) w1 = ((ok, se), w2) \<longrightarrow>
          (\<forall>e. se = Some e \<longrightarrow>
             GetAccessToken c s (Refreshing c) tgr st =
               (Return (None, Some e),
                \<lparr>world = w2, calls = calls st1 @ [CallLoadRefreshToken, CallRefreshingScope]\<rparr>))
          \<and> (se = None \<and> \<not> ok \<longrightarrow>
             GetAccessToken c s (Refreshing c) tgr st =
               (Return (None, Some ErrInvalidScope),
                \<lparr>world = w2, calls = calls st1 @ [CallLoadRefreshToken, CallRefreshingScope]\<rparr>))
          \<and> (se = None \<and> ok \<longrightarrow>
             (\<forall>ti re w3. RefreshAccessToken (Manager s) tgr w2 = ((ti, re), w3) \<longrightarrow>
                GetAccessToken c s (Refreshing c) tgr st =
                  (Return (case re of
                             None \<Rightarrow> (ti, None)
                           | Some e \<Rightarrow>
                               (None, Some (if e = ErrInvalidRefreshToken \<or> e = ErrExpiredRefreshToken
                                            then ErrInvalidGrant else e))),
                   \<lparr>world = w3,
                    calls = calls st1 @ [CallLoadRefreshToken, CallRefreshingScope,
                                         CallRefreshAccessToken]\<rparr>))))"
  using assms
  by (auto simp: GetAccessToken_def CheckGrantType_def allows_iff invoke_def
      refreshing_scope_check_def split: option.splits)

theorem GetAccessToken_refreshing_scope_witness:
  "GetAccessToken ex_consts (ex_server\<lparr>RefreshingScopeHandler := Some ex_scope_refuse\<rparr>)
       ''refresh_token'' ex_tgr ex_state
     = (Return (None, Some ErrInvalidScope),
        \<lparr>world = 2, calls = [CallLoadRefreshToken, CallRefreshingScope]\<rparr>)
   \<and> GetAccessToken ex_consts (ex_server\<lparr>RefreshingScopeHandler := Some ex_scope_error\<rparr>)
       ''refresh_token'' ex_tgr ex_state
     = (Return (None, Some (ErrOpaque 1 ''policy store down'')),
        \<lparr>world = 2, calls = [CallLoadRefreshToken, CallRefreshingScope]\<rparr>)
   \<and> GetAccessToken ex_consts (ex_server\<lparr>RefreshingScopeHandler := Some ex_scope_allow\<rparr>)
       ''refresh_token'' ex_tgr ex_state
     = (Return (Some ex_token, None),
        \<lparr>world = 3, calls = [CallLoadRefreshToken, CallRefreshingScope, CallRefreshAccessToken]\<rparr>)
   \<and> GetAccessToken ex_consts
       (ex_server\<lparr>RefreshingScopeHandler := Some ex_scope_allow,
                  Manager := ex_manager
                    \<lparr>RefreshAccessToken := ex_refresh_fails ErrExpiredRefreshToken\<rparr>\<rparr>)
       ''refresh_token'' ex_tgr ex_state
     = (Return (None, Some ErrInvalidGrant),
        \<lparr>world = 3, calls = [CallLoadRefreshToken, CallRefreshingScope, CallRefreshAccessToken]\<rparr>)
   \<and> GetAccessToken ex_consts
       (ex_server\<lparr>RefreshingScopeHandler := Some ex_scope_allow,
                  Manager := ex_manager
                    \<lparr>LoadRefreshToken := ex_load_fails ErrInvalidRefreshToken\<rparr>\<rparr>)
       ''refresh_token'' ex_tgr ex_state
     = (Return (None, Some ErrInvalidGrant), \<lparr>world = 1, calls = [CallLoadRefreshToken]\<rparr>)"
  using
    GetAccessToken_refreshing_scope [of ex_consts
      "ex_server\<lparr>RefreshingScopeHandler := Some ex_scope_refuse\<rparr>" ex_tgr ex_state ex_state
      ex_scope_refuse "Some ex_token" None 1]
    GetAccessToken_refreshing_scope [of ex_consts
      "ex_server\<lparr>RefreshingScopeHandler := Some ex_scope_error\<rparr>" ex_tgr ex_state ex_state
      ex_scope_error "Some ex_token" None 1]
    GetAccessToken_refreshing_scope [of ex_consts
      "ex_server\<lparr>RefreshingScopeHandler := Some ex_scope_allow\<rparr>" ex_tgr ex_state ex_state
      ex_scope_allow "Some ex_token" None 1]
    GetAccessToken_refreshing_scope [of ex_consts
      "ex_server\<lparr>RefreshingScopeHandler := Some ex_scope_allow,
                  Manager := ex_manager
                    \<lparr>RefreshAccessToken := ex_refresh_fails ErrExpiredRefreshToken\<rparr>\<rparr>"
      ex_tgr ex_state ex_state ex_scope_allow "Some ex_token" None 1]
    GetAccessToken_refreshing_scope [of ex_consts
      "ex_server\<lparr>RefreshingScopeHandler := Some ex_scope_allow,
                  Manager := ex_manager
                    \<lparr>LoadRefreshToken := ex_load_fails ErrInvalidRefreshToken\<rparr>\<rparr>"
      ex_tgr ex_state ex_state ex_scope_allow None "Some ErrInvalidRefreshToken" 1]
  by (auto simp add: ex_defs client_authorized_def ex_scope_refuse_def ex_scope_error_def
      ex_scope_allow_def ex_refresh_fails_def ex_load_fails_def)

section \<open>Properties of the request validation\<close>

text \<open>
  C4, as the specification states it, fails in its third clause. \<open>id_token\<close> is a response
  type outside the allow-list, and the request is not refused with \<open>ErrUnauthorizedClient\<close>:
  the \<open>String\<close> method of a value that is not a known response type is empty, and line 161
  refuses it with \<open>ErrUnsupportedResponseType\<close> before the allow-list is read.
\<close>

theorem ValidationAuthorizeRequest_counterexample:
  "FormValue (ex_authorize_request ''GET'' ''c1'' ''id_token'') ''response_type'' = ''id_token''
   \<and> ''id_token'' \<notin> set (AllowedResponseTypes (Config ex_server))
   \<and> ValidationAuthorizeRequest ex_consts ex_server
         (ex_authorize_request ''GET'' ''c1'' ''id_token'')
       = Inl ErrUnsupportedResponseType"
  by (simp add: ex_consts_def ex_ResponseType_String_def ex_config_def ex_server_def
      NewServer_def ex_request_def ex_authorize_request_def FormValue_def first_value_def
      ValidationAuthorizeRequest_def)

text \<open>
  C4, amended. \<open>ValidationAuthorizeRequest\<close> returns \<open>ErrInvalidRequest\<close> when the method is
  neither GET nor POST or the \<open>client_id\<close> form value is empty. For any other request it
  returns \<open>ErrUnsupportedResponseType\<close> when the \<open>String\<close> method of the response type is
  empty (so for an empty \<open>response_type\<close> form value, the \<open>String\<close> of the empty type being
  empty, and for a value that is not a known response type), and \<open>ErrUnauthorizedClient\<close>
  when the \<open>String\<close> is not empty and the type is not in \<open>Config.AllowedResponseTypes\<close>: a
  type outside the list gets one of the two errors. Otherwise the request record holds the
  five form values as they are. The function makes no call: it has no state to pass on, and
  two servers with the same configuration, whatever their managers and handlers, give the
  same result.
\<close>

theorem ValidationAuthorizeRequest_cases:
  "(\<not> (Method r = ''GET'' \<or> Method r = ''POST'') \<or> FormValue r ''client_id'' = [] \<longrightarrow>
      ValidationAuthorizeRequest c s r = Inl ErrInvalidRequest)
   \<and> ((Method r = ''GET'' \<or> Method r = ''POST'') \<and> FormValue r ''client_id'' \<noteq> [] \<longrightarrow>
        (ResponseType_String c (FormValue r ''response_type'') = [] \<longrightarrow>
           ValidationAuthorizeRequest c s r = Inl ErrUnsupportedResponseType)
      \<and> (FormValue r ''response_type'' = [] \<and> ResponseType_String c [] = [] \<longrightarrow>
           ValidationAuthorizeRequest c s r = Inl ErrUnsupportedResponseType)
      \<and> (ResponseType_String c (FormValue r ''response_type'') \<noteq> []
           \<and> FormValue r ''response_type'' \<notin> set (AllowedResponseTypes (Config s)) \<longrightarrow>
           ValidationAuthorizeRequest c s r = Inl ErrUnauthorizedClient)
      \<and> (FormValue r ''response_type'' \<notin> set (AllowedResponseTypes (Config s)) \<longrightarrow>
           ValidationAuthorizeRequest c s r = Inl ErrUnsupportedResponseType
           \<or> ValidationAuthorizeRequest c s r = Inl ErrUnauthorizedClient)
      \<and> (ResponseType_String c (FormValue r ''response_type'') \<noteq> []
           \<and> FormValue r ''response_type'' \<in> set (AllowedResponseTypes (Config s)) \<longrightarrow>
           ValidationAuthorizeRequest c s r =
             Inr \<lparr>RedirectURI = FormValue r ''redirect_uri'',
                  ResponseType = FormValue r ''response_type'',
                  ClientID = FormValue r ''client_id'',
                  State = FormValue r ''state'',
                  Scope = FormValue r ''scope'',
                  UserID = [], AccessTokenExp = 0, Request = r\<rparr>))
   \<and> (Config s' = Config s \<longrightarrow>
          ValidationAuthorizeRequest c s' r = ValidationAuthorizeRequest c s r)"
  by (auto simp add: ValidationAuthorizeRequest_def CheckResponseType_def allows_iff Let_def)

theorem ValidationAuthorizeRequest_cases_witness:
  "ValidationAuthorizeRequest ex_consts ex_server (ex_authorize_request ''DELETE'' ''c1'' ''code'')
     = Inl ErrInvalidRequest
   \<and> ValidationAuthorizeRequest ex_consts ex_server (ex_authorize_request ''GET'' [] ''code'')
     = Inl ErrInvalidRequest
   \<and> ValidationAuthorizeRequest ex_consts ex_server (ex_authorize_request ''GET'' ''c1'' [])
     = Inl ErrUnsupportedResponseType
   \<and> ValidationAuthorizeRequest ex_consts ex_server (ex_authorize_request ''GET'' ''c1'' ''id_token'')
     = Inl ErrUnsupportedResponseType
   \<and> ValidationAuthorizeRequest ex_consts ex_code_only_server
        (ex_authorize_request ''GET'' ''c1'' ''token'')
     = Inl ErrUnauthorizedClient
   \<and> ValidationAuthorizeRequest ex_consts ex_server (ex_authorize_request ''POST'' ''c1'' ''code'')
     = Inr \<lparr>RedirectURI = ''https://app/cb'', ResponseType = ''code'', ClientID = ''c1'',
            State = ''xyz'', Scope = [], UserID = [], AccessTokenExp = 0,
            Request = ex_authorize_request ''POST'' ''c1'' ''code''\<rparr>
   \<and> ValidationAuthorizeRequest ex_consts (ex_server\<lparr>Manager := ex_manager
          \<lparr>GenerateAuthToken := ex_generate_fails ErrServerError\<rparr>\<rparr>)
        (ex_authorize_request ''POST'' ''c1'' ''code'')
     = ValidationAuthorizeRequest ex_consts ex_server (ex_authorize_request ''POST'' ''c1'' ''code'')"
  using
    ValidationAuthorizeRequest_cases [where r = "ex_authorize_request ''DELETE'' ''c1'' ''code''"
      and c = ex_consts and s = ex_server and s' = ex_server]
    ValidationAuthorizeRequest_cases [where r = "ex_authorize_request ''GET'' [] ''code''"
      and c = ex_consts and s = ex_server and s' = ex_server]
    ValidationAuthorizeRequest_cases [where r = "ex_authorize_request ''GET'' ''c1'' []"
      and c = ex_consts and s = ex_server and s' = ex_server]
    ValidationAuthorizeRequest_cases [where r = "ex_authorize_request ''GET'' ''c1'' ''id_token''"
      and c = ex_consts and s = ex_server and s' = ex_server]
    ValidationAuthorizeRequest_cases [where r = "ex_authorize_request ''GET'' ''c1'' ''token''"
      and c = ex_consts and s = ex_code_only_server and s' = ex_code_only_server]
    ValidationAuthorizeRequest_cases [where r = "ex_authorize_request ''POST'' ''c1'' ''code''"
      and c = ex_consts and s = ex_server
      and s' = "ex_server\<lparr>Manager := ex_manager
                  \<lparr>GenerateAuthToken := ex_generate_fails ErrServerError\<rparr>\<rparr>"]
  by (simp add: ex_defs ex_authorize_request_def FormValue_def first_value_def)

text \<open>
  C5. \<open>NewServer\<close> leaves \<open>CheckUserPermHandler\<close> nil, and the password case of
  \<open>ValidationTokenRequest\<close> calls it without comparing it with nil. The server is the one
  \<open>NewServer\<close> builds, with a \<open>PasswordAuthorizationHandler\<close> that accepts the user; the
  request is a POST with the client's Basic credentials, which the default
  \<open>ClientBasicHandler\<close> accepts, and the form of a password grant. The call panics after the
  two calls that precede the permission check. (Without the credentials the same request is
  refused with \<open>ErrInvalidClient\<close> at line 298, before the password case.)
\<close>

theorem ValidationTokenRequest_nil_CheckUserPermHandler:
  "CheckUserPermHandler (ex_server\<lparr>PasswordAuthorizationHandler := Some ex_password_ok\<rparr>) = None
   \<and> ex_BasicAuth ex_password_request = Some (''c1'', ''secret'')
   \<and> ValidationTokenRequest ex_consts
        (ex_server\<lparr>PasswordAuthorizationHandler := Some ex_password_ok\<rparr>)
        ex_password_request ex_state
     = (Panic, \<lparr>world = 1, calls = [CallClientInfo, CallPasswordAuthorization]\<rparr>)
   \<and> ValidationTokenRequest ex_consts
        (ex_server\<lparr>PasswordAuthorizationHandler := Some ex_password_ok\<rparr>)
        (ex_password_request\<lparr>ReqHeader := []\<rparr>) ex_state
     = (Return (Inl (WithStack ErrInvalidClient)), \<lparr>world = 0, calls = [CallClientInfo]\<rparr>)"
  by (simp add: ex_defs ValidationTokenRequest_def password_case_def invoke_def
      ex_password_request_def ex_password_form_def ex_password_ok_def FormValue_def
      Header_Get_def first_value_def ClientBasicHandler_def ex_BasicAuth_def)

section \<open>Properties of the bearer token\<close>

lemma HasPrefix_append: "HasPrefix (p @ t) p"
  by (simp add: HasPrefix_def)

lemma HasPrefix_D: "HasPrefix s p \<Longrightarrow> s = p @ drop (length p) s"
  by (metis HasPrefix_def append_take_drop_id)

text \<open>
  C10. When the \<open>Authorization\<close> header is \<open>Bearer\<close>, a space and a remainder,
  \<open>BearerAuth\<close> returns the remainder; otherwise it returns the \<open>access_token\<close> form
  value. The boolean says whether the returned token is non-empty.
\<close>

theorem BearerAuth_token:
  "(\<forall>t. Header_Get r ''Authorization'' = ''Bearer '' @ t \<longrightarrow> BearerAuth r = (t, t \<noteq> []))
   \<and> ((\<forall>t. Header_Get r ''Authorization'' \<noteq> ''Bearer '' @ t) \<longrightarrow>
        BearerAuth r = (FormValue r ''access_token'', FormValue r ''access_token'' \<noteq> []))"
proof (intro conjI allI impI)
  fix t assume "Header_Get r ''Authorization'' = ''Bearer '' @ t"
  then show "BearerAuth r = (t, t \<noteq> [])"
    by (simp add: BearerAuth_def HasPrefix_def)
next
  assume no: "\<forall>t. Header_Get r ''Authorization'' \<noteq> ''Bearer '' @ t"
  have "\<not> HasPrefix (Header_Get r ''Authorization'') ''Bearer ''"
    using no HasPrefix_D by blast
  then show "BearerAuth r = (FormValue r ''access_token'', FormValue r ''access_token'' \<noteq> [])"
    by (simp add: BearerAuth_def Let_def)
qed

theorem BearerAuth_token_witness:
  "BearerAuth (ex_bearer_request [''Bearer tok1''] []) = (''tok1'', True)
   \<and> BearerAuth (ex_bearer_request [] [''tok2'']) = (''tok2'', True)
   \<and> BearerAuth (ex_bearer_request [''Basic abc''] [''tok2'']) = (''tok2'', True)
   \<and> BearerAuth (ex_bearer_request [] []) = ([], False)"
  using BearerAuth_token [of "ex_bearer_request [''Bearer tok1''] []"]
    BearerAuth_token [of "ex_bearer_request [] [''tok2'']"]
    BearerAuth_token [of "ex_bearer_request [''Basic abc''] [''tok2'']"]
    BearerAuth_token [of "ex_bearer_request [] []"]
  by (simp add: ex_bearer_request_def Header_Get_def FormValue_def first_value_def)

section \<open>Properties of the token response\<close>

lemma map_of_map_set: "map_of (map_set k v m) = (map_of m)(k \<mapsto> v)"
  by (simp add: map_set_def update_conv')

lemma map_of_merge_ext:
  "map_of (merge_ext d ext) k = (case map_of d k of Some v \<Rightarrow> Some v | None \<Rightarrow> map_of ext k)"
proof (induction ext arbitrary: d)
  case Nil
  then show ?case by (simp split: option.splits)
next
  case (Cons p ext)
  obtain k' v' where p: "p = (k', v')" by (cases p)
  show ?case
    using Cons.IH [of d] Cons.IH [of "map_set k' v' d"]
    by (auto simp: p map_of_map_set split: option.splits)
qed

lemma sdiv_Second_nonneg: "0 \<le> d \<Longrightarrow> d sdiv Second = d div Second"
  by (simp add: signed_divide_int_def Second_def sgn_if)

lemma core_fields_keys:
  "map_of (core_fields s ti) ''access_token'' = Some (VString (GetAccess ti))"
  "map_of (core_fields s ti) ''token_type'' = Some (VString (TokenType (Config s)))"
  "map_of (core_fields s ti) ''expires_in'' = Some (VInt (GetAccessExpiresIn ti sdiv Second))"
  "map_of (core_fields s ti) ''scope'' = (if GetScope ti = [] then None else Some (VString (GetScope ti)))"
  "map_of (core_fields s ti) ''refresh_token'' = (if GetRefresh ti = [] then None else Some (VString (GetRefresh ti)))"
  by (simp_all add: core_fields_def Let_def map_of_map_set)

text \<open>
  C9, as the specification states it, fails twice on one input. The token's lifetime is
  \<open>-1.5\<close> seconds: \<open>expires_in\<close> is \<open>-1\<close>, the quotient truncated towards zero, where the
  floor is \<open>-2\<close>. The token's scope is empty, and the mapping has a \<open>scope\<close> key all the
  same: the extension fields brought it.
\<close>

theorem GetTokenData_counterexample:
  "GetTokenData (ex_server\<lparr>ExtensionFieldsHandler := Some ex_ext\<rparr>) (Some ex_expired_token) ex_state
     = (Return [(''access_token'', VString ''tok1''), (''token_type'', VString ''Bearer''),
                (''expires_in'', VInt (- 1)), (''scope'', VString ''admin'')],
        \<lparr>world = 1, calls = [CallExtensionFields]\<rparr>)
   \<and> GetScope ex_expired_token = []
   \<and> GetAccessExpiresIn ex_expired_token div Second = - 2"
  by (simp add: ex_defs GetTokenData_def core_fields_def invoke_def ex_ext_def
      ex_expired_token_def Second_def map_set_def signed_divide_int_def)

text \<open>
  C9, amended. The core fields of \<open>GetTokenData\<close> are \<open>access_token\<close>, the token's access
  string, \<open>token_type\<close>, the configuration's, and \<open>expires_in\<close>, the lifetime divided by
  one second and truncated towards zero (the floor when the lifetime is not negative); they
  hold a \<open>scope\<close> key exactly when the token's scope is not empty, and a \<open>refresh_token\<close>
  key exactly when its refresh string is not empty. Without an \<open>ExtensionFieldsHandler\<close> the
  result is the core fields. With one, each key of the core fields keeps its value, and any
  other key has the value the handler gave it.
\<close>

theorem GetTokenData_fields:
  "map_of (core_fields s ti) ''access_token'' = Some (VString (GetAccess ti))
   \<and> map_of (core_fields s ti) ''token_type'' = Some (VString (TokenType (Config s)))
   \<and> map_of (core_fields s ti) ''expires_in'' = Some (VInt (GetAccessExpiresIn ti sdiv Second))
   \<and> (0 \<le> GetAccessExpiresIn ti \<longrightarrow>
        GetAccessExpiresIn ti sdiv Second = GetAccessExpiresIn ti div Second)
   \<and> (''scope'' \<in> dom (map_of (core_fields s ti)) \<longleftrightarrow> GetScope ti \<noteq> [])
   \<and> (''refresh_token'' \<in> dom (map_of (core_fields s ti)) \<longleftrightarrow> GetRefresh ti \<noteq> [])
   \<and> (ExtensionFieldsHandler s = None \<longrightarrow>
        GetTokenData s (Some ti) st = (Return (core_fields s ti), st))
   \<and> (ExtensionFieldsHandler s = Some fn \<and> fn ti (world st) = (ext, w') \<longrightarrow>
        GetTokenData s (Some ti) st =
          (Return (merge_ext (core_fields s ti) ext),
           \<lparr>world = w', calls = calls st @ [CallExtensionFields]\<rparr>)
        \<and> map_of (merge_ext (core_fields s ti) ext) k =
            (case map_of (core_fields s ti) k of Some v \<Rightarrow> Some v | None \<Rightarrow> map_of ext k))"
  by (simp add: core_fields_keys sdiv_Second_nonneg dom_def GetTokenData_def invoke_def
      map_of_merge_ext)

theorem GetTokenData_fields_witness:
  "GetTokenData ex_server (Some ex_token) ex_state
     = (Return (core_fields ex_server ex_token), ex_state)
   \<and> map_of (core_fields ex_server ex_token) ''expires_in'' = Some (VInt 7200)
   \<and> ''scope'' \<in> dom (map_of (core_fields ex_server ex_token))
   \<and> ''refresh_token'' \<notin> dom (map_of (core_fields ex_server ex_token))
   \<and> GetTokenData (ex_server\<lparr>ExtensionFieldsHandler := Some ex_ext\<rparr>) (Some ex_expired_token)
        ex_state
     = (Return (merge_ext (core_fields (ex_server\<lparr>ExtensionFieldsHandler := Some ex_ext\<rparr>)
                  ex_expired_token)
                  [(''scope'', VString ''admin''), (''access_token'', VString ''forged'')]),
        \<lparr>world = 1, calls = [CallExtensionFields]\<rparr>)
   \<and> map_of (merge_ext (core_fields (ex_server\<lparr>ExtensionFieldsHandler := Some ex_ext\<rparr>)
                  ex_expired_token)
                  [(''scope'', VString ''admin''), (''access_token'', VString ''forged'')])
        ''access_token'' = Some (VString ''tok1'')"
  using GetTokenData_fields [where s = ex_server and ti = ex_token and st = ex_state
      and fn = ex_ext and ext = "[]" and w' = 0 and k = "''access_token''"]
    GetTokenData_fields [where s = "ex_server\<lparr>ExtensionFieldsHandler := Some ex_ext\<rparr>"
      and ti = ex_expired_token and st = ex_state and fn = ex_ext
      and ext = "[(''scope'', VString ''admin''), (''access_token'', VString ''forged'')]"
      and w' = 1 and k = "''access_token''"]
  by (simp add: ex_defs ex_ext_def ex_expired_token_def Second_def signed_divide_int_def)

section \<open>Properties of the error mapping\<close>






lemma GetErrorData_unhashable:
  "\<not> hashable e \<Longrightarrow> GetErrorData E s e st = (Panic, st)"
  by (simp add: GetErrorData_def resolve_Response_def)






section \<open>Properties of the redirect URI\<close>

lemma upperhex_table:
  "list_all (\<lambda>n. ishex (upperhex ! n) \<and> unhex (upperhex ! n) = n \<and> upperhex ! n \<noteq> CHR ''&'')
     [0..<16]"
  by (simp add: upperhex_def ishex_def unhex_def upt_rec)

lemma upperhex_nibble:
  assumes "n < 16"
  shows "ishex (upperhex ! n) \<and> unhex (upperhex ! n) = n \<and> upperhex ! n \<noteq> CHR ''&''"
proof -
  have "n \<in> set [0..<16]" using assms by simp
  then show ?thesis using upperhex_table unfolding list_all_iff by blast
qed

lemma of_char_div_16: "(of_char c :: nat) div 16 < 16"
proof -
  have "(of_char c :: nat) < 256" by simp
  then show ?thesis by (simp add: less_mult_imp_div_less)
qed

lemma char_of_nibbles: "char_of ((of_char c :: nat) div 16 * 16 + of_char c mod 16) = c"
  by simp

lemma not_shouldEscape_plain:
  "\<not> shouldEscape c \<Longrightarrow> c \<noteq> CHR ''%'' \<and> c \<noteq> CHR ''+'' \<and> c \<noteq> CHR ''&''"
  by (auto simp: shouldEscape_def)

lemma QueryUnescape_escape_char:
  "QueryUnescape (escape_char c @ t) = map_sum id ((#) c) (QueryUnescape t)"
proof (cases "c = CHR '' ''")
  case True
  then show ?thesis by (simp add: escape_char_def)
next
  case False
  show ?thesis
  proof (cases "shouldEscape c")
    case True
    have hi: "ishex (upperhex ! (of_char c div 16))" "unhex (upperhex ! (of_char c div 16)) = of_char c div 16"
      using upperhex_nibble [OF of_char_div_16 [of c]] by simp_all
    have lo: "ishex (upperhex ! (of_char c mod 16))" "unhex (upperhex ! (of_char c mod 16)) = of_char c mod 16"
      using upperhex_nibble [of "of_char c mod 16"] by simp_all
    show ?thesis
      using False True hi lo char_of_nibbles [of c]
      by (simp add: escape_char_def)
  next
    case plain: False
    then show ?thesis
      using False not_shouldEscape_plain [OF plain] by (simp add: escape_char_def)
  qed
qed

lemma map_sum_comp_Cons:
  "map_sum id ((#) c) (map_sum id ((@) s) r) = map_sum id ((@) (c # s)) r"
  by (cases r) simp_all

lemma QueryUnescape_QueryEscape_append:
  "QueryUnescape (QueryEscape s @ t) = map_sum id ((@) s) (QueryUnescape t)"
proof (induction s)
  case Nil
  show ?case by (cases "QueryUnescape t") (simp_all add: QueryEscape_def)
next
  case (Cons c s)
  have "QueryUnescape (QueryEscape (c # s) @ t) = QueryUnescape (escape_char c @ (QueryEscape s @ t))"
    by (simp add: QueryEscape_def)
  also have "\<dots> = map_sum id ((#) c) (QueryUnescape (QueryEscape s @ t))"
    by (rule QueryUnescape_escape_char)
  also have "\<dots> = map_sum id ((@) (c # s)) (QueryUnescape t)"
    by (cases "QueryUnescape t") (simp_all add: Cons.IH)
  finally show ?case .
qed

lemma amp_notin_escape_char: "CHR ''&'' \<notin> set (escape_char c)"
proof -
  have "upperhex ! (of_char c div 16) \<noteq> CHR ''&''"
    using upperhex_nibble [OF of_char_div_16 [of c]] by simp
  moreover have "upperhex ! (of_char c mod 16) \<noteq> CHR ''&''"
    using upperhex_nibble [of "of_char c mod 16"] by simp
  moreover have "\<not> shouldEscape c \<Longrightarrow> c \<noteq> CHR ''&''"
    using not_shouldEscape_plain [of c] by simp
  ultimately show ?thesis
    by (auto simp add: escape_char_def)
qed

lemma amp_notin_QueryEscape: "CHR ''&'' \<notin> set (QueryEscape s)"
  by (induction s) (simp_all add: QueryEscape_def amp_notin_escape_char)


lemma QueryUnescape_amp: "QueryUnescape (CHR ''&'' # t) = map_sum id ((#) CHR ''&'') (QueryUnescape t)"
  by simp

lemma QueryUnescape_eq: "QueryUnescape (CHR ''='' # t) = map_sum id ((#) CHR ''='') (QueryUnescape t)"
  by simp

lemma QueryUnescape_enc_pair_append:
  "QueryUnescape (enc_pair p @ t) = map_sum id ((@) (raw_pair p)) (QueryUnescape t)"
proof -
  have "QueryUnescape (enc_pair p @ t)
          = map_sum id ((@) (fst p)) (QueryUnescape (CHR ''='' # (QueryEscape (snd p) @ t)))"
    using QueryUnescape_QueryEscape_append [of "fst p" "CHR ''='' # (QueryEscape (snd p) @ t)"]
    by (simp add: enc_pair_def)
  also have "QueryUnescape (CHR ''='' # (QueryEscape (snd p) @ t))
          = map_sum id ((#) CHR ''='') (map_sum id ((@) (snd p)) (QueryUnescape t))"
    by (simp only: QueryUnescape_eq QueryUnescape_QueryEscape_append)
  finally show ?thesis
    by (cases "QueryUnescape t") (simp_all add: raw_pair_def)
qed

lemma QueryUnescape_join_enc:
  "QueryUnescape (join_amp (map enc_pair ps)) = Inr (join_amp (map raw_pair ps))"
proof (induction ps rule: induct_list012)
  case 1
  show ?case by simp
next
  case (2 p)
  show ?case using QueryUnescape_enc_pair_append [of p "[]"] by simp
next
  case (3 p p' ps)
  have "QueryUnescape (join_amp (map enc_pair (p # p' # ps)))
          = QueryUnescape (enc_pair p @ (CHR ''&'' # join_amp (map enc_pair (p' # ps))))"
    by simp
  also have "\<dots> = map_sum id ((@) (raw_pair p))
                      (QueryUnescape (CHR ''&'' # join_amp (map enc_pair (p' # ps))))"
    by (rule QueryUnescape_enc_pair_append)
  also have "\<dots> = Inr (join_amp (map raw_pair (p # p' # ps)))"
    using 3 by (simp only: QueryUnescape_amp) simp
  finally show ?case .
qed


lemma QueryUnescape_Values_Encode: "QueryUnescape (Values_Encode q) = Inr (Values_raw q)"
  by (simp add: Values_Encode_def Values_raw_def QueryUnescape_join_enc)

lemma split_amp_nonempty: "split_amp s \<noteq> []"
  by (induction s) (auto split: list.splits)

lemma split_amp_plain: "CHR ''&'' \<notin> set x \<Longrightarrow> split_amp x = [x]"
  by (induction x) auto

lemma split_amp_append: "CHR ''&'' \<notin> set x \<Longrightarrow> split_amp (x @ CHR ''&'' # t) = x # split_amp t"
  by (induction x) auto

lemma split_amp_join:
  "xs \<noteq> [] \<Longrightarrow> \<forall>x\<in>set xs. CHR ''&'' \<notin> set x \<Longrightarrow> split_amp (join_amp xs) = xs"
proof (induction xs rule: induct_list012)
  case 1
  then show ?case by simp
next
  case (2 x)
  then show ?case by (simp add: split_amp_plain)
next
  case (3 x y ys)
  then show ?case by (simp add: split_amp_append)
qed

lemma amp_notin_enc_pair: "CHR ''&'' \<notin> set (enc_pair p)"
  by (simp add: enc_pair_def amp_notin_QueryEscape)

lemma split_amp_Values_Encode:
  "Values_pairs q \<noteq> [] \<Longrightarrow> split_amp (Values_Encode q) = map enc_pair (Values_pairs q)"
  by (simp add: Values_Encode_def split_amp_join amp_notin_enc_pair)

lemma Values_pairs_member:
  assumes "map_of q k = Some vs" and "v \<in> set vs"
  shows "(k, v) \<in> set (Values_pairs q)"
proof -
  have "k \<in> fst ` set q" using assms(1) by (metis map_of_eq_None_iff option.distinct(1))
  then have "k \<in> set (sort (remdups (map fst q)))" by simp
  moreover have "(k, v) \<in> set (map (Pair k) (values_of q k))"
    using assms by (simp add: values_of_def)
  ultimately show ?thesis
    unfolding Values_pairs_def by (auto intro!: bexI [of _ k])
qed

lemma has_param_Values_Encode:
  assumes "map_of q k = Some [v]"
  shows "has_param (Values_Encode q) k v"
proof -
  have mem: "(k, v) \<in> set (Values_pairs q)"
    using Values_pairs_member [OF assms, of v] by simp
  then have "Values_pairs q \<noteq> []" by auto
  then show ?thesis
    using mem by (auto simp: has_param_def split_amp_Values_Encode)
qed

lemma join_amp_contains:
  "x \<in> set xs \<Longrightarrow> \<exists>pre post. join_amp xs = pre @ x @ post"
proof (induction xs rule: induct_list012)
  case 1
  then show ?case by simp
next
  case (2 y)
  then have "join_amp [y] = [] @ x @ []" by simp
  then show ?case by blast
next
  case (3 y z zs)
  show ?case
  proof (cases "x = y")
    case True
    have "join_amp (y # z # zs) = [] @ x @ (CHR ''&'' # join_amp (z # zs))"
      using True by simp
    then show ?thesis by blast
  next
    case False
    then have "x \<in> set (z # zs)" using 3(3) by simp
    then obtain pre post where "join_amp (z # zs) = pre @ x @ post"
      using 3(2) by blast
    then have "join_amp (y # z # zs) = (y @ CHR ''&'' # pre) @ x @ post" by simp
    then show ?thesis by blast
  qed
qed

lemma Values_raw_contains:
  assumes "map_of q k = Some [v]"
  shows "\<exists>pre post. Values_raw q = pre @ k @ CHR ''='' # v @ post"
proof -
  have "(k, v) \<in> set (Values_pairs q)"
    using Values_pairs_member [OF assms, of v] by simp
  then have "raw_pair (k, v) \<in> set (map raw_pair (Values_pairs q))" by force
  then obtain pre post where "Values_raw q = pre @ raw_pair (k, v) @ post"
    unfolding Values_raw_def using join_amp_contains by blast
  then show ?thesis by (auto simp: raw_pair_def)
qed

lemma map_of_Values_Set: "map_of (Values_Set k v q) = (map_of q)(k \<mapsto> [v])"
  by (simp add: Values_Set_def map_of_map_set)

lemma map_of_fold_Set:
  "distinct (map fst data) \<Longrightarrow>
   map_of (fold (\<lambda>(k, v) q. Values_Set k (Sprint v) q) data q0) k
     = (case map_of data k of Some v \<Rightarrow> Some [Sprint v] | None \<Rightarrow> map_of q0 k)"
proof (induction data arbitrary: q0)
  case Nil
  then show ?case by simp
next
  case (Cons p data)
  obtain k' v' where p: "p = (k', v')" by (cases p)
  have notin: "map_of data k' = None"
    using Cons.prems by (simp add: p map_of_eq_None_iff)
  show ?case
    using Cons.IH [of "Values_Set k' (Sprint v') q0"] Cons.prems notin
    by (auto simp: p map_of_Values_Set split: option.splits)
qed

lemma map_of_collect_params:
  assumes "distinct (map fst data)"
  shows "map_of (collect_params N req u data) k
     = (case map_of data k of
          Some v \<Rightarrow> Some [Sprint v]
        | None \<Rightarrow>
            if k = ''state'' \<and> State req \<noteq> [] then Some [State req]
            else if CHR ''#'' \<in> set (RedirectURI req) then None
            else map_of (url_ParseQuery N (RawQuery u)) k)"
  by (simp add: collect_params_def Let_def map_of_fold_Set [OF assms] map_of_Values_Set
      split: option.splits)

lemma distinct_core_fields: "distinct (map fst (core_fields s ti))"
  by (simp add: core_fields_def Let_def map_set_def distinct_update)

lemma distinct_merge_ext: "distinct (map fst d) \<Longrightarrow> distinct (map fst (merge_ext d ext))"
  by (induction ext arbitrary: d) (auto simp: map_set_def distinct_update)

lemma GetTokenData_Return:
  assumes "GetTokenData s (Some ti) st = (Return data, st')"
  shows "distinct (map fst data)
       \<and> map_of data ''access_token'' = Some (VString (GetAccess ti))
       \<and> map_of data ''token_type'' = Some (VString (TokenType (Config s)))
       \<and> map_of data ''expires_in'' = Some (VInt (GetAccessExpiresIn ti sdiv Second))"
proof (cases "ExtensionFieldsHandler s")
  case None
  then have "data = core_fields s ti" using assms by (simp add: GetTokenData_def)
  then show ?thesis by (simp add: distinct_core_fields core_fields_keys)
next
  case (Some fn)
  obtain ext w' where "fn ti (world st) = (ext, w')" by (cases "fn ti (world st)")
  then have "data = merge_ext (core_fields s ti) ext"
    using assms Some by (simp add: GetTokenData_def invoke_def)
  then show ?thesis
    by (simp add: distinct_merge_ext distinct_core_fields map_of_merge_ext core_fields_keys)
qed

lemmas url_eval = ex_net_url_def ex_areq_def ex_url_app_def ex_Parse_def ex_ParseQuery_def
  ex_String_def ex_consts_def collect_params_def Values_raw_def Values_Encode_def Values_pairs_def
  Values_Set_def map_set_def Sprint_def values_of_def raw_pair_def enc_pair_def digit_def
  QueryEscape_def escape_char_def shouldEscape_def

text \<open>
  C6, as the specification states it, fails: the parameters of \<open>data\<close> are set after
  \<open>state\<close>, so a \<open>state\<close> key of \<open>data\<close> replaces the request's. The request's state
  is \<open>xyz\<close>; the query string says \<open>other\<close>.
\<close>

theorem GetRedirectURI_code_counterexample:
  "State (ex_areq ''https://app/cb'' ''code'') = ''xyz''
   \<and> GetRedirectURI ex_consts ex_net_url (ex_areq ''https://app/cb'' ''code'')
        [(''code'', VString ''abc123''), (''state'', VString ''other'')]
     = Inr ''https://app/cb?code=abc123&state=other''"
  by (simp add: GetRedirectURI_def url_eval)

text \<open>
  C6, amended. For a request whose response type is \<open>Code\<close> and whose redirect URI parses
  (to \<open>u\<close>), and a data mapping (its keys distinct, as those of a Go map are): when the
  redirect URI has no \<open>#\<close>, \<open>GetRedirectURI\<close> returns the string of \<open>u\<close> with the encoded
  parameters as its query; when it has one, it returns the redirect URI itself, a \<open>?\<close> and
  the encoded parameters, and the parameters are those of \<open>data\<close> and \<open>state\<close> only: what
  the URI's query held is not among them. In both cases every key of \<open>data\<close> is a parameter,
  with its value as \<open>fmt.Sprint\<close> prints it, and when the request's state is not empty and
  \<open>data\<close> has no \<open>state\<close> key, \<open>state\<close> is a parameter with the request's state as its
  value.
\<close>

theorem GetRedirectURI_code:
  assumes "ResponseType req = Code c"
    and "url_Parse N (RedirectURI req) = Inr u"
    and "distinct (map fst data)"
  shows "(CHR ''#'' \<notin> set (RedirectURI req) \<longrightarrow>
            GetRedirectURI c N req data =
              Inr (url_String N (u\<lparr>RawQuery := Values_Encode (collect_params N req u data)\<rparr>)))
       \<and> (CHR ''#'' \<in> set (RedirectURI req) \<longrightarrow>
            GetRedirectURI c N req data =
              Inr (RedirectURI req @ CHR ''?'' # Values_Encode (collect_params N req u data))
            \<and> (map_of (collect_params N req u data) k \<noteq> None \<longrightarrow>
                 map_of data k \<noteq> None \<or> (k = ''state'' \<and> State req \<noteq> [])))
       \<and> (map_of data k = Some v \<longrightarrow>
            map_of (collect_params N req u data) k = Some [Sprint v]
            \<and> has_param (Values_Encode (collect_params N req u data)) k (Sprint v))
       \<and> (State req \<noteq> [] \<and> map_of data ''state'' = None \<longrightarrow>
            map_of (collect_params N req u data) ''state'' = Some [State req]
            \<and> has_param (Values_Encode (collect_params N req u data)) ''state'' (State req))"
proof -
  let ?q = "collect_params N req u data"
  have res: "GetRedirectURI c N req data =
      (if CHR ''#'' \<in> set (RedirectURI req) then Inr (RedirectURI req @ CHR ''?'' # Values_Encode ?q)
       else Inr (url_String N (u\<lparr>RawQuery := Values_Encode ?q\<rparr>)))"
    using assms(1,2) by (simp add: GetRedirectURI_def Let_def)
  have only: "map_of data k \<noteq> None \<or> (k = ''state'' \<and> State req \<noteq> [])"
    if "CHR ''#'' \<in> set (RedirectURI req)" "map_of ?q k \<noteq> None"
    using that by (auto simp: map_of_collect_params [OF assms(3)] split: option.splits if_splits)
  have dat: "map_of ?q k = Some [Sprint v]" if "map_of data k = Some v"
    using that by (simp add: map_of_collect_params [OF assms(3)])
  have sta: "map_of ?q ''state'' = Some [State req]"
    if "State req \<noteq> []" "map_of data ''state'' = None"
    using that by (simp add: map_of_collect_params [OF assms(3)])
  show ?thesis
    using res only dat sta has_param_Values_Encode [of ?q k "Sprint v"]
      has_param_Values_Encode [of ?q "''state''" "State req"]
    by auto
qed


theorem GetRedirectURI_code_witness:
  "ResponseType (ex_areq ''https://app/cb?x=1'' ''code'') = Code ex_consts
   \<and> url_Parse ex_net_url (RedirectURI (ex_areq ''https://app/cb?x=1'' ''code''))
       = Inr (ex_url_app\<lparr>RawQuery := ''x=1''\<rparr>)
   \<and> GetRedirectURI ex_consts ex_net_url (ex_areq ''https://app/cb?x=1'' ''code'')
        [(''code'', VString ''abc123'')]
       = Inr ''https://app/cb?code=abc123&state=xyz&x=1''
   \<and> has_param ''code=abc123&state=xyz&x=1'' ''code'' ''abc123''
   \<and> has_param ''code=abc123&state=xyz&x=1'' ''state'' ''xyz''
   \<and> GetRedirectURI ex_consts ex_net_url (ex_areq ''https://app/cb?x=1#top'' ''code'')
        [(''code'', VString ''abc123'')]
       = Inr ''https://app/cb?x=1#top?code=abc123&state=xyz''"
proof -
  let ?req = "ex_areq ''https://app/cb?x=1'' ''code''"
  let ?req' = "ex_areq ''https://app/cb?x=1#top'' ''code''"
  let ?u' = "ex_url_app\<lparr>RawQuery := ''x=1'', Fragment := ''top'', RawFragment := ''top''\<rparr>"
  let ?data = "[(''code'', VString ''abc123'')]"
  have h1: "ResponseType ?req = Code ex_consts" "ResponseType ?req' = Code ex_consts"
    by (simp_all add: ex_areq_def ex_consts_def)
  have h2: "url_Parse ex_net_url (RedirectURI ?req) = Inr (ex_url_app\<lparr>RawQuery := ''x=1''\<rparr>)"
    by (simp add: ex_areq_def ex_net_url_def ex_Parse_def)
  have h2': "url_Parse ex_net_url (RedirectURI ?req') = Inr ?u'"
    by (simp add: ex_areq_def ex_net_url_def ex_Parse_def)
  have h3: "distinct (map fst ?data)" by simp
  have nohash: "CHR ''#'' \<notin> set (RedirectURI ?req)" "CHR ''#'' \<in> set (RedirectURI ?req')"
    by (simp_all add: ex_areq_def)
  have enc: "Values_Encode (collect_params ex_net_url ?req (ex_url_app\<lparr>RawQuery := ''x=1''\<rparr>) ?data)
               = ''code=abc123&state=xyz&x=1''"
    by (simp add: url_eval)
  have enc': "Values_Encode (collect_params ex_net_url ?req' ?u' ?data) = ''code=abc123&state=xyz''"
    by (simp add: url_eval)
  have str: "url_String ex_net_url (ex_url_app\<lparr>RawQuery := ''code=abc123&state=xyz&x=1''\<rparr>)
               = ''https://app/cb?code=abc123&state=xyz&x=1''"
    by (simp add: url_eval)
  have uri': "RedirectURI ?req' = ''https://app/cb?x=1#top''" "State ?req = ''xyz''"
    by (simp_all add: ex_areq_def)
  show ?thesis
    using GetRedirectURI_code [OF h1(1) h2 h3, of "''code''" "VString ''abc123''"]
      GetRedirectURI_code [OF h1(2) h2' h3, of "''code''" "VString ''abc123''"]
      h1 h2 nohash enc enc' str uri'
    by (simp add: Sprint_def)
qed

text \<open>
  C7. For a request whose response type is \<open>Token\<close> (a constant other than \<open>Code\<close>) and
  whose redirect URI parses (to \<open>u\<close>), and a data mapping with distinct keys,
  \<open>GetRedirectURI\<close> returns the string of \<open>u\<close> with an empty query and with the fragment
  that \<open>QueryUnescape\<close> makes of the encoded parameters: unescaping never fails on an encoded
  form, and gives the parameters as \<open>key=value\<close> joined by \<open>&\<close>, unescaped. Every key of
  \<open>data\<close> is in the fragment with its value; when \<open>data\<close> is what \<open>GetAuthorizeData\<close>
  returns for a token, the fragment holds \<open>access_token\<close>, \<open>token_type\<close> and \<open>expires_in\<close>
  with the token's values.
\<close>

theorem GetRedirectURI_token:
  assumes "ResponseType req = Token c"
    and "Token c \<noteq> Code c"
    and "url_Parse N (RedirectURI req) = Inr u"
    and "distinct (map fst data)"
  shows "GetRedirectURI c N req data =
           Inr (url_String N (u\<lparr>RawQuery := [],
                                  Fragment := Values_raw (collect_params N req u data)\<rparr>))
       \<and> QueryUnescape (Values_Encode (collect_params N req u data))
           = Inr (Values_raw (collect_params N req u data))
       \<and> (map_of data k = Some v \<longrightarrow>
            (\<exists>pre post. Values_raw (collect_params N req u data)
                          = pre @ k @ CHR ''='' # Sprint v @ post))
       \<and> (GetAuthorizeData c s (Token c) (Some ti) st = (Return data, st') \<longrightarrow>
            (\<exists>pre post. Values_raw (collect_params N req u data)
                          = pre @ ''access_token='' @ GetAccess ti @ post)
            \<and> (\<exists>pre post. Values_raw (collect_params N req u data)
                          = pre @ ''token_type='' @ TokenType (Config s) @ post)
            \<and> (\<exists>pre post. Values_raw (collect_params N req u data)
                          = pre @ ''expires_in=''
                              @ Sprint (VInt (GetAccessExpiresIn ti sdiv Second)) @ post))"
proof -
  let ?q = "collect_params N req u data"
  have un: "QueryUnescape (Values_Encode ?q) = Inr (Values_raw ?q)"
    by (rule QueryUnescape_Values_Encode)
  have res: "GetRedirectURI c N req data =
           Inr (url_String N (u\<lparr>RawQuery := [], Fragment := Values_raw ?q\<rparr>))"
    using assms(1,2,3) un by (simp add: GetRedirectURI_def Let_def)
  have key: "\<exists>pre post. Values_raw ?q = pre @ k' @ CHR ''='' # Sprint v' @ post"
    if "map_of data k' = Some v'" for k' v'
    using Values_raw_contains [of ?q k' "Sprint v'"] that
    by (simp add: map_of_collect_params [OF assms(4)])
  have tok: "map_of data ''access_token'' = Some (VString (GetAccess ti))
       \<and> map_of data ''token_type'' = Some (VString (TokenType (Config s)))
       \<and> map_of data ''expires_in'' = Some (VInt (GetAccessExpiresIn ti sdiv Second))"
    if "GetAuthorizeData c s (Token c) (Some ti) st = (Return data, st')"
    using that assms(2) GetTokenData_Return [of s ti st data st']
    by (simp add: GetAuthorizeData_def)
  show ?thesis
    using res un key [of k v] key [of "''access_token''" "VString (GetAccess ti)"]
      key [of "''token_type''" "VString (TokenType (Config s))"]
      key [of "''expires_in''" "VInt (GetAccessExpiresIn ti sdiv Second)"] tok
    by (simp add: Sprint_def)
qed

theorem GetRedirectURI_token_witness:
  "ResponseType (ex_areq ''https://app/cb'' ''token'') = Token ex_consts
   \<and> Token ex_consts \<noteq> Code ex_consts
   \<and> url_Parse ex_net_url (RedirectURI (ex_areq ''https://app/cb'' ''token'')) = Inr ex_url_app
   \<and> GetAuthorizeData ex_consts ex_server (Token ex_consts) (Some ex_token) ex_state
       = (Return (core_fields ex_server ex_token), ex_state)
   \<and> GetRedirectURI ex_consts ex_net_url (ex_areq ''https://app/cb'' ''token'')
        (core_fields ex_server ex_token)
       = Inr ''https://app/cb#access_token=tok1&expires_in=7200&scope=read&state=xyz&token_type=Bearer''
   \<and> (\<exists>pre post. ''access_token=tok1&expires_in=7200&scope=read&state=xyz&token_type=Bearer''
                     = pre @ ''access_token='' @ GetAccess ex_token @ post)"
proof -
  let ?req = "ex_areq ''https://app/cb'' ''token''"
  let ?data = "core_fields ex_server ex_token"
  have h1: "ResponseType ?req = Token ex_consts"
    by (simp add: ex_areq_def ex_consts_def)
  have h2: "Token ex_consts \<noteq> Code ex_consts"
    by (simp add: ex_consts_def)
  have h3: "url_Parse ex_net_url (RedirectURI ?req) = Inr ex_url_app"
    by (simp add: ex_areq_def ex_net_url_def ex_Parse_def)
  have h4: "distinct (map fst ?data)"
    by (rule distinct_core_fields)
  have h5: "GetAuthorizeData ex_consts ex_server (Token ex_consts) (Some ex_token) ex_state
              = (Return ?data, ex_state)"
    by (simp add: GetAuthorizeData_def GetTokenData_def ex_consts_def ex_server_def NewServer_def)
  have d: "?data = [(''access_token'', VString ''tok1''), (''token_type'', VString ''Bearer''),
                    (''expires_in'', VInt 7200), (''scope'', VString ''read'')]"
    by (simp add: core_fields_def ex_server_def NewServer_def ex_config_def ex_token_def
        Second_def map_set_def signed_divide_int_def)
  have raw: "Values_raw (collect_params ex_net_url ?req ex_url_app ?data)
               = ''access_token=tok1&expires_in=7200&scope=read&state=xyz&token_type=Bearer''"
    unfolding d by (simp add: url_eval)
  have str: "url_String ex_net_url
               (ex_url_app\<lparr>RawQuery := [],
                  Fragment := ''access_token=tok1&expires_in=7200&scope=read&state=xyz&token_type=Bearer''\<rparr>)
             = ''https://app/cb#access_token=tok1&expires_in=7200&scope=read&state=xyz&token_type=Bearer''"
    by (simp add: url_eval)
  show ?thesis
    using GetRedirectURI_token [OF h1 h2 h3 h4, of "''access_token''" "VString ''tok1''"
        ex_server ex_token ex_state ex_state] h1 h2 h3 h5 raw str
    by simp
qed

end
